theory Spec2Isabelle
  imports Main
begin

section \<open>Schema (db/tables.ts)\<close>

text \<open>
  A column of type date holds a JavaScript \<open>Date\<close>; it is modelled by its
  millisecond time stamp. An optional column is an \<open>option\<close>.
\<close>

type_synonym date = int

record ClipboardItem =
  item_id :: string
  item_userId :: string
  item_contentType :: "string option"
  item_content :: string
  item_normalizedPreview :: "string option"
  item_sourceApp :: "string option"
  item_sourceDevice :: "string option"
  item_isPinned :: bool
  item_isArchived :: bool
  item_createdAt :: date
  item_lastCopiedAt :: "date option"

record ClipboardCollection =
  col_id :: string
  col_userId :: string
  col_name :: string
  col_description :: "string option"
  col_icon :: "string option"
  col_isDefault :: bool
  col_createdAt :: date
  col_updatedAt :: date

record ClipboardCollectionItem =
  link_id :: string
  link_collectionId :: string
  link_itemId :: string
  link_addedAt :: date

text \<open>The three tables; a table is the list of its rows in storage order.\<close>

record database =
  ClipboardItems :: "ClipboardItem list"
  ClipboardCollections :: "ClipboardCollection list"
  ClipboardCollectionItems :: "ClipboardCollectionItem list"

definition empty_db :: database where
  "empty_db = \<lparr>ClipboardItems = [], ClipboardCollections = [], ClipboardCollectionItems = []\<rparr>"

section \<open>Errors, request context, responses\<close>

text \<open>
  \<open>UNAUTHORIZED\<close> and \<open>NOT_FOUND\<close> are the two codes the handlers throw.
  \<open>BAD_REQUEST\<close> is the code of the input error raised when the input does not
  parse against the action's schema, and \<open>INTERNAL_SERVER_ERROR\<close> stands for
  an exception of the storage engine (an insert that breaks the primary key).
\<close>

datatype error = UNAUTHORIZED | NOT_FOUND | BAD_REQUEST | INTERNAL_SERVER_ERROR

record user =
  user_id :: string

record Locals =
  locals_user :: "user option"

record ActionAPIContext =
  ctx_locals :: "Locals option"

text \<open>
  The two readings of the outside world a handler takes: \<open>new Date()\<close> and
  \<open>crypto.randomUUID()\<close>. Each handler reads each of them at most once.
\<close>

record env =
  env_now :: date
  env_randomUUID :: string

datatype response =
  ItemData "ClipboardItem option"
  | ItemsData "ClipboardItem list" nat
  | CollectionData "ClipboardCollection option"
  | CollectionsData "ClipboardCollection list" nat
  | LinkData "ClipboardCollectionItem option"
  | Success

type_synonym result = "(error + response) \<times> database"

section \<open>Storage operations\<close>

text \<open>
  The query builder of the storage layer, restricted to the four statements the
  handlers issue. \<open>select_where\<close> returns the matching rows; \<open>insert_row\<close> appends a
  row unless its primary key is taken, and returns the new table with the rows of
  \<open>returning()\<close>; \<open>update_where\<close> rewrites every matching row and returns the
  rewritten rows; \<open>delete_where\<close> drops every matching row and reports
  \<open>rowsAffected\<close>.
\<close>

definition select_where :: "('r \<Rightarrow> bool) \<Rightarrow> 'r list \<Rightarrow> 'r list" where
  "select_where p rows = filter p rows"

definition insert_row :: "('r \<Rightarrow> string) \<Rightarrow> 'r \<Rightarrow> 'r list \<Rightarrow> error + ('r list \<times> 'r list)" where
  "insert_row pk r rows =
     (if pk r \<in> set (map pk rows) then Inl INTERNAL_SERVER_ERROR else Inr (rows @ [r], [r]))"

definition update_where :: "('r \<Rightarrow> bool) \<Rightarrow> ('r \<Rightarrow> 'r) \<Rightarrow> 'r list \<Rightarrow> 'r list \<times> 'r list" where
  "update_where p f rows = (map (\<lambda>r. if p r then f r else r) rows, map f (filter p rows))"

definition delete_where :: "('r \<Rightarrow> bool) \<Rightarrow> 'r list \<Rightarrow> 'r list \<times> nat" where
  "delete_where p rows = (filter (\<lambda>r. \<not> p r) rows, length (filter p rows))"

text \<open>The array pattern \<open>const [x] = rows\<close>: the first row, or \<open>undefined\<close>.\<close>

definition first :: "'r list \<Rightarrow> 'r option" where
  "first rows = (case rows of [] \<Rightarrow> None | r # _ \<Rightarrow> Some r)"

section \<open>Guards (src/actions/index.ts)\<close>

definition caller :: "ActionAPIContext \<Rightarrow> user option" where
  "caller context = (case ctx_locals context of None \<Rightarrow> None | Some locals \<Rightarrow> locals_user locals)"

definition requireUser :: "ActionAPIContext \<Rightarrow> error + user" where
  "requireUser context = (case caller context of None \<Rightarrow> Inl UNAUTHORIZED | Some u \<Rightarrow> Inr u)"

definition getOwnedCollection :: "string \<Rightarrow> string \<Rightarrow> database \<Rightarrow> error + ClipboardCollection" where
  "getOwnedCollection collectionId userId db =
     (case first (select_where (\<lambda>c. col_id c = collectionId \<and> col_userId c = userId)
                    (ClipboardCollections db)) of
        None \<Rightarrow> Inl NOT_FOUND
      | Some collection \<Rightarrow> Inr collection)"

definition getOwnedItem :: "string \<Rightarrow> string \<Rightarrow> database \<Rightarrow> error + ClipboardItem" where
  "getOwnedItem itemId userId db =
     (case first (select_where (\<lambda>i. item_id i = itemId \<and> item_userId i = userId)
                    (ClipboardItems db)) of
        None \<Rightarrow> Inl NOT_FOUND
      | Some item \<Rightarrow> Inr item)"

section \<open>Actions\<close>

text \<open>
  An action is an input schema and a handler. The input is parsed against the
  schema first; the handler runs on the parsed input only, and a parse failure is
  the action's result without the handler having run.
\<close>

definition defineAction ::
  "('raw \<Rightarrow> error + 'inp) \<Rightarrow> ('inp \<Rightarrow> ActionAPIContext \<Rightarrow> env \<Rightarrow> database \<Rightarrow> result)
     \<Rightarrow> 'raw \<Rightarrow> ActionAPIContext \<Rightarrow> env \<Rightarrow> database \<Rightarrow> result" where
  "defineAction schema handler raw context e db =
     (case schema raw of Inl err \<Rightarrow> (Inl err, db) | Inr input \<Rightarrow> handler input context e db)"

text \<open>\<open>z.string().min(1)\<close>\<close>

definition min1 :: "string \<Rightarrow> bool" where
  "min1 s = (1 \<le> length s)"

subsection \<open>createClipboardItem\<close>

record create_item_input =
  ci_contentType :: "string option"
  ci_content :: string
  ci_normalizedPreview :: "string option"
  ci_sourceApp :: "string option"
  ci_sourceDevice :: "string option"
  ci_isPinned :: "bool option"
  ci_isArchived :: "bool option"
  ci_lastCopiedAt :: "date option"

definition createClipboardItem_schema :: "create_item_input \<Rightarrow> error + create_item_input" where
  "createClipboardItem_schema input = (if min1 (ci_content input) then Inr input else Inl BAD_REQUEST)"

definition createClipboardItem_handler ::
  "create_item_input \<Rightarrow> ActionAPIContext \<Rightarrow> env \<Rightarrow> database \<Rightarrow> result" where
  "createClipboardItem_handler input context e db =
     (case requireUser context of
        Inl err \<Rightarrow> (Inl err, db)
      | Inr u \<Rightarrow>
          let now = env_now e in
          (case insert_row item_id
                  \<lparr>item_id = env_randomUUID e,
                   item_userId = user_id u,
                   item_contentType = ci_contentType input,
                   item_content = ci_content input,
                   item_normalizedPreview = ci_normalizedPreview input,
                   item_sourceApp = ci_sourceApp input,
                   item_sourceDevice = ci_sourceDevice input,
                   item_isPinned = (case ci_isPinned input of None \<Rightarrow> False | Some b \<Rightarrow> b),
                   item_isArchived = (case ci_isArchived input of None \<Rightarrow> False | Some b \<Rightarrow> b),
                   item_createdAt = now,
                   item_lastCopiedAt = ci_lastCopiedAt input\<rparr>
                  (ClipboardItems db) of
             Inl err \<Rightarrow> (Inl err, db)
           | Inr (rows, returning) \<Rightarrow>
               (Inr (ItemData (first returning)), db\<lparr>ClipboardItems := rows\<rparr>)))"

definition createClipboardItem ::
  "create_item_input \<Rightarrow> ActionAPIContext \<Rightarrow> env \<Rightarrow> database \<Rightarrow> result" where
  "createClipboardItem = defineAction createClipboardItem_schema createClipboardItem_handler"

subsection \<open>updateClipboardItem\<close>

record update_item_input =
  ui_id :: string
  ui_contentType :: "string option"
  ui_content :: "string option"
  ui_normalizedPreview :: "string option"
  ui_sourceApp :: "string option"
  ui_sourceDevice :: "string option"
  ui_isPinned :: "bool option"
  ui_isArchived :: "bool option"
  ui_lastCopiedAt :: "date option"

definition updateClipboardItem_schema :: "update_item_input \<Rightarrow> error + update_item_input" where
  "updateClipboardItem_schema input =
     (if min1 (ui_id input) \<and>
         (ui_contentType input \<noteq> None \<or>
          ui_content input \<noteq> None \<or>
          ui_normalizedPreview input \<noteq> None \<or>
          ui_sourceApp input \<noteq> None \<or>
          ui_sourceDevice input \<noteq> None \<or>
          ui_isPinned input \<noteq> None \<or>
          ui_isArchived input \<noteq> None \<or>
          ui_lastCopiedAt input \<noteq> None)
      then Inr input else Inl BAD_REQUEST)"

text \<open>
  The object given to \<open>set\<close>: a field is spread into it only when the input
  defines it, so the row keeps every other column.
\<close>

definition item_set :: "update_item_input \<Rightarrow> ClipboardItem \<Rightarrow> ClipboardItem" where
  "item_set input r =
     (let r = (case ui_contentType input of None \<Rightarrow> r | Some v \<Rightarrow> r\<lparr>item_contentType := Some v\<rparr>);
          r = (case ui_content input of None \<Rightarrow> r | Some v \<Rightarrow> r\<lparr>item_content := v\<rparr>);
          r = (case ui_normalizedPreview input of None \<Rightarrow> r
               | Some v \<Rightarrow> r\<lparr>item_normalizedPreview := Some v\<rparr>);
          r = (case ui_sourceApp input of None \<Rightarrow> r | Some v \<Rightarrow> r\<lparr>item_sourceApp := Some v\<rparr>);
          r = (case ui_sourceDevice input of None \<Rightarrow> r | Some v \<Rightarrow> r\<lparr>item_sourceDevice := Some v\<rparr>);
          r = (case ui_isPinned input of None \<Rightarrow> r | Some v \<Rightarrow> r\<lparr>item_isPinned := v\<rparr>);
          r = (case ui_isArchived input of None \<Rightarrow> r | Some v \<Rightarrow> r\<lparr>item_isArchived := v\<rparr>);
          r = (case ui_lastCopiedAt input of None \<Rightarrow> r | Some v \<Rightarrow> r\<lparr>item_lastCopiedAt := Some v\<rparr>)
      in r)"

definition updateClipboardItem_handler ::
  "update_item_input \<Rightarrow> ActionAPIContext \<Rightarrow> env \<Rightarrow> database \<Rightarrow> result" where
  "updateClipboardItem_handler input context e db =
     (case requireUser context of
        Inl err \<Rightarrow> (Inl err, db)
      | Inr u \<Rightarrow>
          (case getOwnedItem (ui_id input) (user_id u) db of
             Inl err \<Rightarrow> (Inl err, db)
           | Inr _ \<Rightarrow>
               (case update_where (\<lambda>r. item_id r = ui_id input) (item_set input)
                       (ClipboardItems db) of
                  (rows, returning) \<Rightarrow>
                    (Inr (ItemData (first returning)), db\<lparr>ClipboardItems := rows\<rparr>))))"

definition updateClipboardItem ::
  "update_item_input \<Rightarrow> ActionAPIContext \<Rightarrow> env \<Rightarrow> database \<Rightarrow> result" where
  "updateClipboardItem = defineAction updateClipboardItem_schema updateClipboardItem_handler"

subsection \<open>listClipboardItems\<close>

text \<open>The request may leave either flag out; the schema fills in \<open>false\<close>.\<close>

record list_items_raw =
  raw_includeArchived :: "bool option"
  raw_pinnedOnly :: "bool option"

record list_items_input =
  li_includeArchived :: bool
  li_pinnedOnly :: bool

definition listClipboardItems_schema :: "list_items_raw \<Rightarrow> error + list_items_input" where
  "listClipboardItems_schema raw =
     Inr \<lparr>li_includeArchived = (case raw_includeArchived raw of None \<Rightarrow> False | Some b \<Rightarrow> b),
          li_pinnedOnly = (case raw_pinnedOnly raw of None \<Rightarrow> False | Some b \<Rightarrow> b)\<rparr>"

definition listClipboardItems_handler ::
  "list_items_input \<Rightarrow> ActionAPIContext \<Rightarrow> env \<Rightarrow> database \<Rightarrow> result" where
  "listClipboardItems_handler input context e db =
     (case requireUser context of
        Inl err \<Rightarrow> (Inl err, db)
      | Inr u \<Rightarrow>
          let filters = [\<lambda>r. item_userId r = user_id u];
              filters = (if \<not> li_includeArchived input
                         then filters @ [\<lambda>r. item_isArchived r = False] else filters);
              filters = (if li_pinnedOnly input
                         then filters @ [\<lambda>r. item_isPinned r = True] else filters);
              items = select_where (\<lambda>r. list_all (\<lambda>f. f r) filters) (ClipboardItems db)
          in (Inr (ItemsData items (length items)), db))"

definition listClipboardItems ::
  "list_items_raw \<Rightarrow> ActionAPIContext \<Rightarrow> env \<Rightarrow> database \<Rightarrow> result" where
  "listClipboardItems = defineAction listClipboardItems_schema listClipboardItems_handler"

subsection \<open>createCollection\<close>

record create_collection_input =
  cc_name :: string
  cc_description :: "string option"
  cc_icon :: "string option"
  cc_isDefault :: "bool option"

definition createCollection_schema :: "create_collection_input \<Rightarrow> error + create_collection_input" where
  "createCollection_schema input = (if min1 (cc_name input) then Inr input else Inl BAD_REQUEST)"

definition createCollection_handler ::
  "create_collection_input \<Rightarrow> ActionAPIContext \<Rightarrow> env \<Rightarrow> database \<Rightarrow> result" where
  "createCollection_handler input context e db =
     (case requireUser context of
        Inl err \<Rightarrow> (Inl err, db)
      | Inr u \<Rightarrow>
          let now = env_now e in
          (case insert_row col_id
                  \<lparr>col_id = env_randomUUID e,
                   col_userId = user_id u,
                   col_name = cc_name input,
                   col_description = cc_description input,
                   col_icon = cc_icon input,
                   col_isDefault = (case cc_isDefault input of None \<Rightarrow> False | Some b \<Rightarrow> b),
                   col_createdAt = now,
                   col_updatedAt = now\<rparr>
                  (ClipboardCollections db) of
             Inl err \<Rightarrow> (Inl err, db)
           | Inr (rows, returning) \<Rightarrow>
               (Inr (CollectionData (first returning)), db\<lparr>ClipboardCollections := rows\<rparr>)))"

definition createCollection ::
  "create_collection_input \<Rightarrow> ActionAPIContext \<Rightarrow> env \<Rightarrow> database \<Rightarrow> result" where
  "createCollection = defineAction createCollection_schema createCollection_handler"

subsection \<open>updateCollection\<close>

record update_collection_input =
  uc_id :: string
  uc_name :: "string option"
  uc_description :: "string option"
  uc_icon :: "string option"
  uc_isDefault :: "bool option"

definition updateCollection_schema :: "update_collection_input \<Rightarrow> error + update_collection_input" where
  "updateCollection_schema input =
     (if min1 (uc_id input) \<and>
         (case uc_name input of None \<Rightarrow> True | Some n \<Rightarrow> min1 n) \<and>
         (uc_name input \<noteq> None \<or>
          uc_description input \<noteq> None \<or>
          uc_icon input \<noteq> None \<or>
          uc_isDefault input \<noteq> None)
      then Inr input else Inl BAD_REQUEST)"

definition collection_set :: "update_collection_input \<Rightarrow> date \<Rightarrow> ClipboardCollection \<Rightarrow> ClipboardCollection" where
  "collection_set input now r =
     (let r = (case uc_name input of None \<Rightarrow> r | Some v \<Rightarrow> r\<lparr>col_name := v\<rparr>);
          r = (case uc_description input of None \<Rightarrow> r | Some v \<Rightarrow> r\<lparr>col_description := Some v\<rparr>);
          r = (case uc_icon input of None \<Rightarrow> r | Some v \<Rightarrow> r\<lparr>col_icon := Some v\<rparr>);
          r = (case uc_isDefault input of None \<Rightarrow> r | Some v \<Rightarrow> r\<lparr>col_isDefault := v\<rparr>)
      in r\<lparr>col_updatedAt := now\<rparr>)"

definition updateCollection_handler ::
  "update_collection_input \<Rightarrow> ActionAPIContext \<Rightarrow> env \<Rightarrow> database \<Rightarrow> result" where
  "updateCollection_handler input context e db =
     (case requireUser context of
        Inl err \<Rightarrow> (Inl err, db)
      | Inr u \<Rightarrow>
          (case getOwnedCollection (uc_id input) (user_id u) db of
             Inl err \<Rightarrow> (Inl err, db)
           | Inr _ \<Rightarrow>
               (case update_where (\<lambda>r. col_id r = uc_id input) (collection_set input (env_now e))
                       (ClipboardCollections db) of
                  (rows, returning) \<Rightarrow>
                    (Inr (CollectionData (first returning)), db\<lparr>ClipboardCollections := rows\<rparr>))))"

definition updateCollection ::
  "update_collection_input \<Rightarrow> ActionAPIContext \<Rightarrow> env \<Rightarrow> database \<Rightarrow> result" where
  "updateCollection = defineAction updateCollection_schema updateCollection_handler"

subsection \<open>listCollections\<close>

definition listCollections_handler :: "unit \<Rightarrow> ActionAPIContext \<Rightarrow> env \<Rightarrow> database \<Rightarrow> result" where
  "listCollections_handler input context e db =
     (case requireUser context of
        Inl err \<Rightarrow> (Inl err, db)
      | Inr u \<Rightarrow>
          let collections = select_where (\<lambda>c. col_userId c = user_id u) (ClipboardCollections db)
          in (Inr (CollectionsData collections (length collections)), db))"

definition listCollections :: "unit \<Rightarrow> ActionAPIContext \<Rightarrow> env \<Rightarrow> database \<Rightarrow> result" where
  "listCollections = defineAction Inr listCollections_handler"

subsection \<open>addItemToCollection, removeItemFromCollection\<close>

record link_input =
  ln_collectionId :: string
  ln_itemId :: string

definition link_schema :: "link_input \<Rightarrow> error + link_input" where
  "link_schema input =
     (if min1 (ln_collectionId input) \<and> min1 (ln_itemId input) then Inr input else Inl BAD_REQUEST)"

definition addItemToCollection_handler ::
  "link_input \<Rightarrow> ActionAPIContext \<Rightarrow> env \<Rightarrow> database \<Rightarrow> result" where
  "addItemToCollection_handler input context e db =
     (case requireUser context of
        Inl err \<Rightarrow> (Inl err, db)
      | Inr u \<Rightarrow>
          (case getOwnedCollection (ln_collectionId input) (user_id u) db of
             Inl err \<Rightarrow> (Inl err, db)
           | Inr _ \<Rightarrow>
               (case getOwnedItem (ln_itemId input) (user_id u) db of
                  Inl err \<Rightarrow> (Inl err, db)
                | Inr _ \<Rightarrow>
                    (case insert_row link_id
                            \<lparr>link_id = env_randomUUID e,
                             link_collectionId = ln_collectionId input,
                             link_itemId = ln_itemId input,
                             link_addedAt = env_now e\<rparr>
                            (ClipboardCollectionItems db) of
                       Inl err \<Rightarrow> (Inl err, db)
                     | Inr (rows, returning) \<Rightarrow>
                         (Inr (LinkData (first returning)),
                          db\<lparr>ClipboardCollectionItems := rows\<rparr>)))))"

definition addItemToCollection ::
  "link_input \<Rightarrow> ActionAPIContext \<Rightarrow> env \<Rightarrow> database \<Rightarrow> result" where
  "addItemToCollection = defineAction link_schema addItemToCollection_handler"

definition removeItemFromCollection_handler ::
  "link_input \<Rightarrow> ActionAPIContext \<Rightarrow> env \<Rightarrow> database \<Rightarrow> result" where
  "removeItemFromCollection_handler input context e db =
     (case requireUser context of
        Inl err \<Rightarrow> (Inl err, db)
      | Inr u \<Rightarrow>
          (case getOwnedCollection (ln_collectionId input) (user_id u) db of
             Inl err \<Rightarrow> (Inl err, db)
           | Inr _ \<Rightarrow>
               (case getOwnedItem (ln_itemId input) (user_id u) db of
                  Inl err \<Rightarrow> (Inl err, db)
                | Inr _ \<Rightarrow>
                    (case delete_where
                            (\<lambda>l. link_collectionId l = ln_collectionId input \<and>
                                 link_itemId l = ln_itemId input)
                            (ClipboardCollectionItems db) of
                       (rows, rowsAffected) \<Rightarrow>
                         if rowsAffected = 0
                         then (Inl NOT_FOUND, db\<lparr>ClipboardCollectionItems := rows\<rparr>)
                         else (Inr Success, db\<lparr>ClipboardCollectionItems := rows\<rparr>)))))"

definition removeItemFromCollection ::
  "link_input \<Rightarrow> ActionAPIContext \<Rightarrow> env \<Rightarrow> database \<Rightarrow> result" where
  "removeItemFromCollection = defineAction link_schema removeItemFromCollection_handler"

subsection \<open>listCollectionItems\<close>

record list_collection_items_input =
  lci_collectionId :: string

definition listCollectionItems_schema ::
  "list_collection_items_input \<Rightarrow> error + list_collection_items_input" where
  "listCollectionItems_schema input =
     (if min1 (lci_collectionId input) then Inr input else Inl BAD_REQUEST)"

definition listCollectionItems_handler ::
  "list_collection_items_input \<Rightarrow> ActionAPIContext \<Rightarrow> env \<Rightarrow> database \<Rightarrow> result" where
  "listCollectionItems_handler input context e db =
     (case requireUser context of
        Inl err \<Rightarrow> (Inl err, db)
      | Inr u \<Rightarrow>
          (case getOwnedCollection (lci_collectionId input) (user_id u) db of
             Inl err \<Rightarrow> (Inl err, db)
           | Inr _ \<Rightarrow>
               let links = select_where (\<lambda>l. link_collectionId l = lci_collectionId input)
                             (ClipboardCollectionItems db);
                   itemIds = map link_itemId links
               in if length itemIds = 0 then (Inr (ItemsData [] 0), db)
                  else let items = select_where (\<lambda>i. item_id i \<in> set itemIds) (ClipboardItems db)
                       in (Inr (ItemsData items (length items)), db)))"

definition listCollectionItems ::
  "list_collection_items_input \<Rightarrow> ActionAPIContext \<Rightarrow> env \<Rightarrow> database \<Rightarrow> result" where
  "listCollectionItems = defineAction listCollectionItems_schema listCollectionItems_handler"

subsection \<open>The exported object \<open>server\<close>\<close>

text \<open>
  A call names one action of \<open>server\<close> and carries its input. The input of
  \<open>listClipboardItems\<close> changes type when it is parsed (the defaults are filled
  in), hence the type parameter: a request carries the raw input, a parsed request
  the input the handler receives.
\<close>

datatype 'l call =
  CreateClipboardItem create_item_input
  | UpdateClipboardItem update_item_input
  | ListClipboardItems 'l
  | CreateCollection create_collection_input
  | UpdateCollection update_collection_input
  | ListCollections
  | AddItemToCollection link_input
  | RemoveItemFromCollection link_input
  | ListCollectionItems list_collection_items_input

type_synonym request = "list_items_raw call"
type_synonym parsed_request = "list_items_input call"

fun server :: "request \<Rightarrow> ActionAPIContext \<Rightarrow> env \<Rightarrow> database \<Rightarrow> result" where
  "server (CreateClipboardItem input) context e db = createClipboardItem input context e db"
| "server (UpdateClipboardItem input) context e db = updateClipboardItem input context e db"
| "server (ListClipboardItems input) context e db = listClipboardItems input context e db"
| "server (CreateCollection input) context e db = createCollection input context e db"
| "server (UpdateCollection input) context e db = updateCollection input context e db"
| "server ListCollections context e db = listCollections () context e db"
| "server (AddItemToCollection input) context e db = addItemToCollection input context e db"
| "server (RemoveItemFromCollection input) context e db = removeItemFromCollection input context e db"
| "server (ListCollectionItems input) context e db = listCollectionItems input context e db"

text \<open>The schema and the handler of the action a call names.\<close>

fun schema :: "request \<Rightarrow> error + parsed_request" where
  "schema (CreateClipboardItem input) = map_sum id CreateClipboardItem (createClipboardItem_schema input)"
| "schema (UpdateClipboardItem input) = map_sum id UpdateClipboardItem (updateClipboardItem_schema input)"
| "schema (ListClipboardItems input) = map_sum id ListClipboardItems (listClipboardItems_schema input)"
| "schema (CreateCollection input) = map_sum id CreateCollection (createCollection_schema input)"
| "schema (UpdateCollection input) = map_sum id UpdateCollection (updateCollection_schema input)"
| "schema ListCollections = Inr ListCollections"
| "schema (AddItemToCollection input) = map_sum id AddItemToCollection (link_schema input)"
| "schema (RemoveItemFromCollection input) = map_sum id RemoveItemFromCollection (link_schema input)"
| "schema (ListCollectionItems input) = map_sum id ListCollectionItems (listCollectionItems_schema input)"

fun handler :: "parsed_request \<Rightarrow> ActionAPIContext \<Rightarrow> env \<Rightarrow> database \<Rightarrow> result" where
  "handler (CreateClipboardItem input) context e db = createClipboardItem_handler input context e db"
| "handler (UpdateClipboardItem input) context e db = updateClipboardItem_handler input context e db"
| "handler (ListClipboardItems input) context e db = listClipboardItems_handler input context e db"
| "handler (CreateCollection input) context e db = createCollection_handler input context e db"
| "handler (UpdateCollection input) context e db = updateCollection_handler input context e db"
| "handler ListCollections context e db = listCollections_handler () context e db"
| "handler (AddItemToCollection input) context e db = addItemToCollection_handler input context e db"
| "handler (RemoveItemFromCollection input) context e db =
     removeItemFromCollection_handler input context e db"
| "handler (ListCollectionItems input) context e db = listCollectionItems_handler input context e db"

section \<open>Stored states\<close>

text \<open>
  What the schema and the handlers maintain of a stored state: \<open>id\<close> is the
  primary key of each table, and every link joins a stored collection and a stored
  item of one owner.
\<close>

definition well_formed :: "database \<Rightarrow> bool" where
  "well_formed db \<longleftrightarrow>
     distinct (map item_id (ClipboardItems db)) \<and>
     distinct (map col_id (ClipboardCollections db)) \<and>
     distinct (map link_id (ClipboardCollectionItems db)) \<and>
     (\<forall>l \<in> set (ClipboardCollectionItems db).
        \<exists>c \<in> set (ClipboardCollections db). \<exists>i \<in> set (ClipboardItems db).
          col_id c = link_collectionId l \<and> item_id i = link_itemId l \<and>
          col_userId c = item_userId i)"

text \<open>The rows a response carries.\<close>

fun items_of :: "error + response \<Rightarrow> ClipboardItem list" where
  "items_of (Inr (ItemsData items n)) = items"
| "items_of (Inr (ItemData (Some item))) = [item]"
| "items_of _ = []"


section \<open>Sample data\<close>

text \<open>
  Two users and a small stored state: Alice has three items (pinned and archived,
  pinned and active, unpinned and active) and a collection that links the second
  item twice and the third once; Bob has one item in one collection.
\<close>

definition alice :: user where
  "alice = \<lparr>user_id = ''alice''\<rparr>"

definition bob :: user where
  "bob = \<lparr>user_id = ''bob''\<rparr>"

definition signed_in :: "user \<Rightarrow> ActionAPIContext" where
  "signed_in u = \<lparr>ctx_locals = Some \<lparr>locals_user = Some u\<rparr>\<rparr>"

definition anonymous :: ActionAPIContext where
  "anonymous = \<lparr>ctx_locals = Some \<lparr>locals_user = None\<rparr>\<rparr>"

definition sample_env :: env where
  "sample_env = \<lparr>env_now = 200, env_randomUUID = ''fresh''\<rparr>"

definition sample_item :: "string \<Rightarrow> string \<Rightarrow> bool \<Rightarrow> bool \<Rightarrow> ClipboardItem" where
  "sample_item i u pinned archived =
     \<lparr>item_id = i, item_userId = u, item_contentType = Some ''text'', item_content = ''hello'',
      item_normalizedPreview = None, item_sourceApp = None, item_sourceDevice = None,
      item_isPinned = pinned, item_isArchived = archived, item_createdAt = 100,
      item_lastCopiedAt = None\<rparr>"

definition sample_collection :: "string \<Rightarrow> string \<Rightarrow> ClipboardCollection" where
  "sample_collection c u =
     \<lparr>col_id = c, col_userId = u, col_name = ''Work'', col_description = None, col_icon = None,
      col_isDefault = False, col_createdAt = 50, col_updatedAt = 50\<rparr>"

definition sample_link :: "string \<Rightarrow> string \<Rightarrow> string \<Rightarrow> ClipboardCollectionItem" where
  "sample_link l c i = \<lparr>link_id = l, link_collectionId = c, link_itemId = i, link_addedAt = 150\<rparr>"

definition sample_db :: database where
  "sample_db =
     \<lparr>ClipboardItems =
        [sample_item ''i1'' ''alice'' True True,
         sample_item ''i2'' ''alice'' True False,
         sample_item ''i3'' ''alice'' False False,
         sample_item ''i4'' ''bob'' False False],
      ClipboardCollections = [sample_collection ''c1'' ''alice'', sample_collection ''c2'' ''bob''],
      ClipboardCollectionItems =
        [sample_link ''l1'' ''c1'' ''i2'',
         sample_link ''l2'' ''c1'' ''i2'',
         sample_link ''l3'' ''c1'' ''i3'',
         sample_link ''l4'' ''c2'' ''i4'']\<rparr>"

definition three_items_db :: database where
  "three_items_db =
     \<lparr>ClipboardItems =
        [sample_item ''i1'' ''alice'' True True,
         sample_item ''i2'' ''alice'' True False,
         sample_item ''i3'' ''alice'' False False],
      ClipboardCollections = [],
      ClipboardCollectionItems = []\<rparr>"

definition unpin_only :: update_item_input where
  "unpin_only =
     \<lparr>ui_id = ''i2'', ui_contentType = None, ui_content = None, ui_normalizedPreview = None,
      ui_sourceApp = None, ui_sourceDevice = None, ui_isPinned = Some False, ui_isArchived = None,
      ui_lastCopiedAt = None\<rparr>"

definition blank_content :: update_item_input where
  "blank_content =
     \<lparr>ui_id = ''i2'', ui_contentType = None, ui_content = Some [], ui_normalizedPreview = None,
      ui_sourceApp = None, ui_sourceDevice = None, ui_isPinned = None, ui_isArchived = None,
      ui_lastCopiedAt = None\<rparr>"

definition later_env :: env where
  "later_env = \<lparr>env_now = 300, env_randomUUID = ''fresh2''\<rparr>"

definition new_collection_input :: create_collection_input where
  "new_collection_input = \<lparr>cc_name = ''Work'', cc_description = None, cc_icon = None, cc_isDefault = None\<rparr>"

definition rename_input :: update_collection_input where
  "rename_input = \<lparr>uc_id = ''fresh'', uc_name = Some ''Home'', uc_description = None, uc_icon = None,
      uc_isDefault = None\<rparr>"

definition rename_c1 :: update_collection_input where
  "rename_c1 = \<lparr>uc_id = ''c1'', uc_name = Some ''Home'', uc_description = None, uc_icon = None,
      uc_isDefault = None\<rparr>"

definition renamed :: "date \<Rightarrow> ClipboardCollection" where
  "renamed t =
     \<lparr>col_id = ''c1'', col_userId = ''alice'', col_name = ''Home'', col_description = None,
      col_icon = None, col_isDefault = False, col_createdAt = 50, col_updatedAt = t\<rparr>"

definition link_c1_i1 :: link_input where
  "link_c1_i1 = \<lparr>ln_collectionId = ''c1'', ln_itemId = ''i1''\<rparr>"

definition link_c1_i2 :: link_input where
  "link_c1_i2 = \<lparr>ln_collectionId = ''c1'', ln_itemId = ''i2''\<rparr>"

definition link_c2_i2 :: link_input where
  "link_c2_i2 = \<lparr>ln_collectionId = ''c2'', ln_itemId = ''i2''\<rparr>"

definition id_only :: update_item_input where
  "id_only =
     \<lparr>ui_id = ''i2'', ui_contentType = None, ui_content = None, ui_normalizedPreview = None,
      ui_sourceApp = None, ui_sourceDevice = None, ui_isPinned = None, ui_isArchived = None,
      ui_lastCopiedAt = None\<rparr>"

lemmas sample_defs =
  id_only_def link_c2_i2_def later_env_def new_collection_input_def rename_input_def rename_c1_def renamed_def
  link_c1_i1_def link_c1_i2_def
  three_items_db_def unpin_only_def blank_content_def
  alice_def bob_def signed_in_def anonymous_def sample_env_def sample_item_def
  sample_collection_def sample_link_def sample_db_def

lemmas storage_defs =
  select_where_def insert_row_def update_where_def delete_where_def first_def

lemmas guard_defs =
  caller_def requireUser_def getOwnedCollection_def getOwnedItem_def

lemmas schema_defs =
  min1_def createClipboardItem_schema_def updateClipboardItem_schema_def
  listClipboardItems_schema_def createCollection_schema_def updateCollection_schema_def
  link_schema_def listCollectionItems_schema_def

lemmas handler_defs =
  createClipboardItem_handler_def updateClipboardItem_handler_def
  listClipboardItems_handler_def createCollection_handler_def updateCollection_handler_def
  listCollections_handler_def addItemToCollection_handler_def
  removeItemFromCollection_handler_def listCollectionItems_handler_def

lemmas action_defs =
  defineAction_def createClipboardItem_def updateClipboardItem_def listClipboardItems_def
  createCollection_def updateCollection_def listCollections_def addItemToCollection_def
  removeItemFromCollection_def listCollectionItems_def

section \<open>The actions of \<open>server\<close> as schema and handler\<close>

lemma server_eq: "server req context e db = defineAction schema handler req context e db"
  by (cases req) (auto simp: action_defs split: sum.splits)

section \<open>Failures leave the stored state alone\<close>

lemma filter_none: "filter p xs = [] \<Longrightarrow> filter (\<lambda>r. \<not> p r) xs = xs"
  by (induction xs) (auto split: if_splits)

lemma delete_where_none: "delete_where p rows = (rows', 0) \<Longrightarrow> rows' = rows"
  by (auto simp: delete_where_def filter_none)

lemma remove_failure_unchanged:
  "fst (removeItemFromCollection_handler input context e db) = Inl err \<Longrightarrow>
   snd (removeItemFromCollection_handler input context e db) = db"
  by (auto simp: removeItemFromCollection_handler_def dest!: delete_where_none
        split: sum.splits prod.splits if_splits)

lemma handler_failure_unchanged:
  "fst (handler call context e db) = Inl err \<Longrightarrow> snd (handler call context e db) = db"
  by (cases call)
     (auto simp: createClipboardItem_handler_def updateClipboardItem_handler_def
        listClipboardItems_handler_def createCollection_handler_def updateCollection_handler_def
        listCollections_handler_def addItemToCollection_handler_def
        remove_failure_unchanged listCollectionItems_handler_def
        Let_def update_where_def
        split: sum.splits prod.splits if_splits)

lemma handler_unauthorized:
  "caller context = None \<Longrightarrow> handler call context e db = (Inl UNAUTHORIZED, db)"
  by (cases call) (simp_all add: handler_defs requireUser_def)

text \<open>
  C9 (as amended). Every handler resolves the caller before anything else: when the
  context holds no user, the handler of every action, on every input, fails with
  \<open>UNAUTHORIZED\<close> and returns the stored state it was given; so does the
  action, on every request that its schema accepts. And whenever an action fails,
  with whatever error (the schema's rejection included), the stored state after it
  is the stored state before it.
\<close>

theorem unauthorized_first_and_failures_atomic:
  "(caller context = None \<longrightarrow> handler call context e db = (Inl UNAUTHORIZED, db)) \<and>
   (fst (server req context e db) = Inl err \<longrightarrow> snd (server req context e db) = db) \<and>
   (caller context = None \<longrightarrow> (\<exists>parsed. schema req = Inr parsed) \<longrightarrow>
      server req context e db = (Inl UNAUTHORIZED, db))"
  using handler_unauthorized handler_failure_unchanged
  by (auto simp: server_eq defineAction_def split: sum.splits)

theorem unauthorized_first_and_failures_atomic_witness:
  "caller anonymous = None \<and>
   handler (AddItemToCollection \<lparr>ln_collectionId = ''c1'', ln_itemId = ''i2''\<rparr>)
     anonymous sample_env sample_db = (Inl UNAUTHORIZED, sample_db) \<and>
   fst (server (RemoveItemFromCollection \<lparr>ln_collectionId = ''c1'', ln_itemId = ''i1''\<rparr>)
          (signed_in alice) sample_env sample_db) = Inl NOT_FOUND \<and>
   snd (server (RemoveItemFromCollection \<lparr>ln_collectionId = ''c1'', ln_itemId = ''i1''\<rparr>)
          (signed_in alice) sample_env sample_db) = sample_db \<and>
   schema (RemoveItemFromCollection \<lparr>ln_collectionId = ''c1'', ln_itemId = ''i1''\<rparr>) =
     Inr (RemoveItemFromCollection \<lparr>ln_collectionId = ''c1'', ln_itemId = ''i1''\<rparr>) \<and>
   server (RemoveItemFromCollection \<lparr>ln_collectionId = ''c1'', ln_itemId = ''i1''\<rparr>)
     anonymous sample_env sample_db = (Inl UNAUTHORIZED, sample_db)"
proof -
  have parsed: "schema (RemoveItemFromCollection \<lparr>ln_collectionId = ''c1'', ln_itemId = ''i1''\<rparr>) =
     Inr (RemoveItemFromCollection \<lparr>ln_collectionId = ''c1'', ln_itemId = ''i1''\<rparr>)"
    by (simp add: link_schema_def min1_def)
  have anon: "caller anonymous = None"
    by (simp add: caller_def anonymous_def)
  have fails: "fst (server (RemoveItemFromCollection \<lparr>ln_collectionId = ''c1'', ln_itemId = ''i1''\<rparr>)
          (signed_in alice) sample_env sample_db) = Inl NOT_FOUND"
    by (simp add: action_defs schema_defs handler_defs guard_defs storage_defs sample_defs)
  show ?thesis
    using anon fails parsed
      unauthorized_first_and_failures_atomic
        [of anonymous "AddItemToCollection \<lparr>ln_collectionId = ''c1'', ln_itemId = ''i2''\<rparr>"
            sample_env sample_db
            "RemoveItemFromCollection \<lparr>ln_collectionId = ''c1'', ln_itemId = ''i1''\<rparr>"
            NOT_FOUND]
      unauthorized_first_and_failures_atomic
        [of "signed_in alice" ListCollections sample_env sample_db
            "RemoveItemFromCollection \<lparr>ln_collectionId = ''c1'', ln_itemId = ''i1''\<rparr>"
            NOT_FOUND]
    by simp
qed

text \<open>
  C9, as stated, fails: the schema is checked before the handler resolves the
  caller, so a request without a user that the schema rejects is answered
  \<open>BAD_REQUEST\<close>, not \<open>UNAUTHORIZED\<close>. Here nobody is signed in and the
  update supplies the id alone.
\<close>

theorem anonymous_rejected_by_schema_first:
  "caller anonymous = None \<and>
   server (UpdateClipboardItem id_only) anonymous sample_env sample_db =
     (Inl BAD_REQUEST, sample_db)"
  by (simp add: caller_def anonymous_def id_only_def updateClipboardItem_def defineAction_def
      updateClipboardItem_schema_def)

text \<open>
  C8. An update that supplies the id and none of the optional fields is rejected by
  the schema: \<open>updateClipboardItem\<close> and \<open>updateCollection\<close> answer
  \<open>BAD_REQUEST\<close> whoever calls and whatever is stored, and the stored state
  is the one they were given.
\<close>

theorem zero_field_update_rejected:
  "updateClipboardItem
     \<lparr>ui_id = i, ui_contentType = None, ui_content = None, ui_normalizedPreview = None,
      ui_sourceApp = None, ui_sourceDevice = None, ui_isPinned = None, ui_isArchived = None,
      ui_lastCopiedAt = None\<rparr> context e db = (Inl BAD_REQUEST, db) \<and>
   updateCollection
     \<lparr>uc_id = i, uc_name = None, uc_description = None, uc_icon = None, uc_isDefault = None\<rparr>
     context e db = (Inl BAD_REQUEST, db)"
  by (simp add: updateClipboardItem_def updateCollection_def defineAction_def
      updateClipboardItem_schema_def updateCollection_schema_def)

theorem zero_field_update_rejected_witness:
  "updateClipboardItem
     \<lparr>ui_id = ''i1'', ui_contentType = None, ui_content = None, ui_normalizedPreview = None,
      ui_sourceApp = None, ui_sourceDevice = None, ui_isPinned = None, ui_isArchived = None,
      ui_lastCopiedAt = None\<rparr> (signed_in alice) sample_env sample_db = (Inl BAD_REQUEST, sample_db) \<and>
   updateCollection
     \<lparr>uc_id = ''i1'', uc_name = None, uc_description = None, uc_icon = None, uc_isDefault = None\<rparr>
     (signed_in alice) sample_env sample_db = (Inl BAD_REQUEST, sample_db)"
  using zero_field_update_rejected [of "''i1''" "signed_in alice" sample_env sample_db]
  by simp

section \<open>The ownership guards\<close>

lemma first_filter_None: "first (filter p xs) = None \<longleftrightarrow> (\<forall>x\<in>set xs. \<not> p x)"
  by (induction xs) (auto simp: first_def)

lemma first_filter_Some: "first (filter p xs) = Some x \<Longrightarrow> x \<in> set xs \<and> p x"
  by (induction xs) (auto simp: first_def split: if_splits)

lemma getOwnedCollection_Inl:
  "getOwnedCollection cid uid db = Inl err \<longleftrightarrow>
     err = NOT_FOUND \<and> (\<forall>c\<in>set (ClipboardCollections db). \<not> (col_id c = cid \<and> col_userId c = uid))"
  by (auto simp: getOwnedCollection_def select_where_def first_filter_None split: option.splits
      dest!: first_filter_Some)

lemma getOwnedCollection_Inr:
  "getOwnedCollection cid uid db = Inr c \<Longrightarrow>
     c \<in> set (ClipboardCollections db) \<and> col_id c = cid \<and> col_userId c = uid"
  by (auto simp: getOwnedCollection_def select_where_def split: option.splits
      dest: first_filter_Some)

lemma getOwnedItem_Inl:
  "getOwnedItem iid uid db = Inl err \<longleftrightarrow>
     err = NOT_FOUND \<and> (\<forall>i\<in>set (ClipboardItems db). \<not> (item_id i = iid \<and> item_userId i = uid))"
  by (auto simp: getOwnedItem_def select_where_def first_filter_None split: option.splits
      dest!: first_filter_Some)

lemma getOwnedItem_Inr:
  "getOwnedItem iid uid db = Inr i \<Longrightarrow>
     i \<in> set (ClipboardItems db) \<and> item_id i = iid \<and> item_userId i = uid"
  by (auto simp: getOwnedItem_def select_where_def split: option.splits
      dest: first_filter_Some)

lemma owned_collection_found:
  "c \<in> set (ClipboardCollections db) \<Longrightarrow> col_id c = cid \<Longrightarrow> col_userId c = uid \<Longrightarrow>
   \<exists>c'. getOwnedCollection cid uid db = Inr c'"
  by (cases "getOwnedCollection cid uid db") (auto simp: getOwnedCollection_Inl)

lemma owned_item_found:
  "i \<in> set (ClipboardItems db) \<Longrightarrow> item_id i = iid \<Longrightarrow> item_userId i = uid \<Longrightarrow>
   \<exists>i'. getOwnedItem iid uid db = Inr i'"
  by (cases "getOwnedItem iid uid db") (auto simp: getOwnedItem_Inl)

lemma filter_key_unique:
  "distinct (map f xs) \<Longrightarrow> x \<in> set xs \<Longrightarrow> filter (\<lambda>r. f r = f x) xs = [x]"
  by (induction xs) (auto simp: filter_empty_conv image_iff)

lemma key_unique:
  "distinct (map f xs) \<Longrightarrow> x \<in> set xs \<Longrightarrow> y \<in> set xs \<Longrightarrow> f x = f y \<Longrightarrow> x = y"
  by (meson distinct_map inj_on_def)

lemma item_set_fields:
  "item_id (item_set input r) = item_id r"
  "item_userId (item_set input r) = item_userId r"
  "item_createdAt (item_set input r) = item_createdAt r"
  "item_contentType (item_set input r) =
     (case ui_contentType input of None \<Rightarrow> item_contentType r | Some v \<Rightarrow> Some v)"
  "item_content (item_set input r) = (case ui_content input of None \<Rightarrow> item_content r | Some v \<Rightarrow> v)"
  "item_normalizedPreview (item_set input r) =
     (case ui_normalizedPreview input of None \<Rightarrow> item_normalizedPreview r | Some v \<Rightarrow> Some v)"
  "item_sourceApp (item_set input r) =
     (case ui_sourceApp input of None \<Rightarrow> item_sourceApp r | Some v \<Rightarrow> Some v)"
  "item_sourceDevice (item_set input r) =
     (case ui_sourceDevice input of None \<Rightarrow> item_sourceDevice r | Some v \<Rightarrow> Some v)"
  "item_isPinned (item_set input r) = (case ui_isPinned input of None \<Rightarrow> item_isPinned r | Some v \<Rightarrow> v)"
  "item_isArchived (item_set input r) =
     (case ui_isArchived input of None \<Rightarrow> item_isArchived r | Some v \<Rightarrow> v)"
  "item_lastCopiedAt (item_set input r) =
     (case ui_lastCopiedAt input of None \<Rightarrow> item_lastCopiedAt r | Some v \<Rightarrow> Some v)"
  by (simp_all add: item_set_def Let_def split: option.splits)

lemma collection_set_fields:
  "col_id (collection_set input now r) = col_id r"
  "col_userId (collection_set input now r) = col_userId r"
  "col_createdAt (collection_set input now r) = col_createdAt r"
  "col_updatedAt (collection_set input now r) = now"
  "col_name (collection_set input now r) = (case uc_name input of None \<Rightarrow> col_name r | Some v \<Rightarrow> v)"
  "col_description (collection_set input now r) =
     (case uc_description input of None \<Rightarrow> col_description r | Some v \<Rightarrow> Some v)"
  "col_icon (collection_set input now r) = (case uc_icon input of None \<Rightarrow> col_icon r | Some v \<Rightarrow> Some v)"
  "col_isDefault (collection_set input now r) =
     (case uc_isDefault input of None \<Rightarrow> col_isDefault r | Some v \<Rightarrow> v)"
  by (simp_all add: collection_set_def Let_def split: option.splits)

lemma first_Some: "first xs = Some x \<Longrightarrow> x \<in> set xs"
  by (cases xs) (auto simp: first_def)

lemma first_map_filter:
  assumes "first (map f (filter p rows)) = Some x"
  shows "\<exists>k<length rows. p (rows ! k) \<and> x = f (rows ! k)"
proof -
  from first_Some [OF assms] obtain r where "r \<in> set rows" "p r" "x = f r"
    by auto
  then show ?thesis
    by (metis in_set_conv_nth)
qed

lemma first_map_filter_None:
  "first (map f (filter p rows)) = None \<Longrightarrow> r \<in> set rows \<Longrightarrow> \<not> p r"
  by (cases "filter p rows") (auto simp: first_def filter_empty_conv)

section \<open>Listing items\<close>

text \<open>
  C7. \<open>listClipboardItems\<close> returns, for a signed-in caller, exactly the stored
  items that belong to the caller, are not archived unless \<open>includeArchived\<close> is
  true, and are pinned when \<open>pinnedOnly\<close> is true (a flag left out counts as
  false); \<open>total\<close> is the number of items returned and nothing is stored.
  In particular, when the caller's items are one pinned and archived, one pinned and
  active and one unpinned and active, \<open>pinnedOnly: true\<close> alone returns
  exactly the pinned and active one.
\<close>

theorem listClipboardItems_filters_conjunctive:
  "(caller context = Some u \<longrightarrow>
      (\<exists>items. listClipboardItems raw context e db = (Inr (ItemsData items (length items)), db) \<and>
         items = filter (\<lambda>r. item_userId r = user_id u \<and>
                             (raw_includeArchived raw = Some True \<or> \<not> item_isArchived r) \<and>
                             (raw_pinnedOnly raw = Some True \<longrightarrow> item_isPinned r))
                   (ClipboardItems db))) \<and>
   (caller context = Some u \<and> ClipboardItems db = [a, b, c] \<and>
    item_userId a = user_id u \<and> item_userId b = user_id u \<and> item_userId c = user_id u \<and>
    item_isPinned a \<and> item_isArchived a \<and>
    item_isPinned b \<and> \<not> item_isArchived b \<and>
    \<not> item_isPinned c \<and> \<not> item_isArchived c \<longrightarrow>
      listClipboardItems \<lparr>raw_includeArchived = None, raw_pinnedOnly = Some True\<rparr> context e db =
        (Inr (ItemsData [b] 1), db))"
  by (auto simp: listClipboardItems_def defineAction_def listClipboardItems_schema_def
      listClipboardItems_handler_def requireUser_def select_where_def Let_def
      split: option.splits intro!: filter_cong)

theorem listClipboardItems_filters_conjunctive_witness:
  "caller (signed_in alice) = Some alice \<and>
   listClipboardItems \<lparr>raw_includeArchived = None, raw_pinnedOnly = Some True\<rparr>
     (signed_in alice) sample_env sample_db =
     (Inr (ItemsData [sample_item ''i2'' ''alice'' True False] 1), sample_db) \<and>
   listClipboardItems \<lparr>raw_includeArchived = None, raw_pinnedOnly = Some True\<rparr>
     (signed_in alice) sample_env three_items_db =
     (Inr (ItemsData [sample_item ''i2'' ''alice'' True False] 1), three_items_db)"
proof -
  have 1: "caller (signed_in alice) = Some alice"
    by (simp add: caller_def signed_in_def)
  have 2: "ClipboardItems three_items_db =
      [sample_item ''i1'' ''alice'' True True, sample_item ''i2'' ''alice'' True False,
       sample_item ''i3'' ''alice'' False False]"
    by (simp add: three_items_db_def)
  show ?thesis
    using 1 2
      listClipboardItems_filters_conjunctive
        [of "signed_in alice" alice "\<lparr>raw_includeArchived = None, raw_pinnedOnly = Some True\<rparr>"
            sample_env sample_db]
      listClipboardItems_filters_conjunctive
        [of "signed_in alice" alice _ sample_env three_items_db
            "sample_item ''i1'' ''alice'' True True" "sample_item ''i2'' ''alice'' True False"
            "sample_item ''i3'' ''alice'' False False"]
    by (simp add: sample_defs)
qed

section \<open>Removing a link\<close>

text \<open>
  C6. When the caller owns both the collection and the item it names,
  \<open>removeItemFromCollection\<close> leaves the link table without any row of that
  (collectionId, itemId) pair, every other row and both other tables as they were;
  it fails with \<open>NOT_FOUND\<close> exactly when no row had that pair, and succeeds
  otherwise.
\<close>

theorem removeItemFromCollection_deletes_all_matching:
  assumes "caller context = Some u"
    and "\<exists>c\<in>set (ClipboardCollections db). col_id c = ln_collectionId input \<and> col_userId c = user_id u"
    and "\<exists>i\<in>set (ClipboardItems db). item_id i = ln_itemId input \<and> item_userId i = user_id u"
  shows "snd (removeItemFromCollection_handler input context e db) =
           db\<lparr>ClipboardCollectionItems :=
                filter (\<lambda>l. \<not> (link_collectionId l = ln_collectionId input \<and>
                                link_itemId l = ln_itemId input))
                  (ClipboardCollectionItems db)\<rparr> \<and>
         (fst (removeItemFromCollection_handler input context e db) = Inl NOT_FOUND \<longleftrightarrow>
            (\<forall>l\<in>set (ClipboardCollectionItems db).
               \<not> (link_collectionId l = ln_collectionId input \<and> link_itemId l = ln_itemId input))) \<and>
         (fst (removeItemFromCollection_handler input context e db) \<noteq> Inl NOT_FOUND \<longrightarrow>
            fst (removeItemFromCollection_handler input context e db) = Inr Success)"
proof -
  from assms(2) obtain c where "getOwnedCollection (ln_collectionId input) (user_id u) db = Inr c"
    using owned_collection_found by blast
  moreover from assms(3) obtain i where "getOwnedItem (ln_itemId input) (user_id u) db = Inr i"
    using owned_item_found by blast
  ultimately show ?thesis
    using assms(1)
    by (auto simp: removeItemFromCollection_handler_def requireUser_def delete_where_def
        filter_empty_conv)
qed

theorem removeItemFromCollection_deletes_all_matching_witness:
  "caller (signed_in alice) = Some alice \<and>
   (\<exists>c\<in>set (ClipboardCollections sample_db). col_id c = ''c1'' \<and> col_userId c = user_id alice) \<and>
   (\<exists>i\<in>set (ClipboardItems sample_db). item_id i = ''i2'' \<and> item_userId i = user_id alice) \<and>
   removeItemFromCollection_handler \<lparr>ln_collectionId = ''c1'', ln_itemId = ''i2''\<rparr>
     (signed_in alice) sample_env sample_db =
     (Inr Success,
      sample_db\<lparr>ClipboardCollectionItems :=
        [sample_link ''l3'' ''c1'' ''i3'', sample_link ''l4'' ''c2'' ''i4'']\<rparr>)"
proof -
  have 1: "caller (signed_in alice) = Some alice"
    by (simp add: caller_def signed_in_def)
  have 2: "\<exists>c\<in>set (ClipboardCollections sample_db).
      col_id c = ln_collectionId \<lparr>ln_collectionId = ''c1'', ln_itemId = ''i2''\<rparr> \<and> col_userId c = user_id alice"
    by (simp add: sample_defs)
  have 3: "\<exists>i\<in>set (ClipboardItems sample_db).
      item_id i = ln_itemId \<lparr>ln_collectionId = ''c1'', ln_itemId = ''i2''\<rparr> \<and> item_userId i = user_id alice"
    by (simp add: sample_defs)
  have 4: "\<exists>l\<in>set (ClipboardCollectionItems sample_db). link_collectionId l = ''c1'' \<and> link_itemId l = ''i2''"
    by (simp add: sample_defs)
  have 5: "filter (\<lambda>l. \<not> (link_collectionId l = ''c1'' \<and> link_itemId l = ''i2''))
             (ClipboardCollectionItems sample_db) =
           [sample_link ''l3'' ''c1'' ''i3'', sample_link ''l4'' ''c2'' ''i4'']"
    by (simp add: sample_defs)
  show ?thesis
    using 1 2 3 4 5 removeItemFromCollection_deletes_all_matching [OF 1 2 3, of sample_env]
    by (cases "removeItemFromCollection_handler \<lparr>ln_collectionId = ''c1'', ln_itemId = ''i2''\<rparr>
     (signed_in alice) sample_env sample_db") auto
qed

section \<open>Updating an item\<close>

lemma updateClipboardItem_handler_Inr:
  assumes "updateClipboardItem_handler input context e db = (Inr resp, db')"
  shows "db' = db\<lparr>ClipboardItems :=
                   map (\<lambda>r. if item_id r = ui_id input then item_set input r else r) (ClipboardItems db)\<rparr>"
    and "\<exists>k<length (ClipboardItems db). item_id (ClipboardItems db ! k) = ui_id input \<and>
           resp = ItemData (Some (item_set input (ClipboardItems db ! k)))"
proof -
  from assms obtain u i where u: "requireUser context = Inr u"
    and i: "getOwnedItem (ui_id input) (user_id u) db = Inr i"
    by (auto simp: updateClipboardItem_handler_def split: sum.splits)
  from assms u i show "db' = db\<lparr>ClipboardItems :=
                   map (\<lambda>r. if item_id r = ui_id input then item_set input r else r) (ClipboardItems db)\<rparr>"
    by (auto simp: updateClipboardItem_handler_def update_where_def)
  from assms u i have resp: "resp = ItemData (first (map (item_set input)
       (filter (\<lambda>r. item_id r = ui_id input) (ClipboardItems db))))"
    by (auto simp: updateClipboardItem_handler_def update_where_def)
  from i have "i \<in> set (ClipboardItems db)" "item_id i = ui_id input"
    by (auto dest: getOwnedItem_Inr)
  then obtain x where "first (map (item_set input)
       (filter (\<lambda>r. item_id r = ui_id input) (ClipboardItems db))) = Some x"
    using first_map_filter_None [of "item_set input" "\<lambda>r. item_id r = ui_id input" "ClipboardItems db" i]
    by (cases "first (map (item_set input)
       (filter (\<lambda>r. item_id r = ui_id input) (ClipboardItems db)))") auto
  with resp first_map_filter [OF this]
  show "\<exists>k<length (ClipboardItems db). item_id (ClipboardItems db ! k) = ui_id input \<and>
           resp = ItemData (Some (item_set input (ClipboardItems db ! k)))"
    by auto
qed

text \<open>
  C4. A successful \<open>updateClipboardItem\<close> changes no other table and no row with
  another id. Of a row it rewrites, the id, the owner and \<open>createdAt\<close> stay, and
  so does every column whose field the input leaves undefined. The item in the
  response is a rewritten row with the id of the input.
\<close>

theorem updateClipboardItem_keeps_absent_fields:
  assumes "updateClipboardItem_handler input context e db = (Inr resp, db')"
  shows "ClipboardCollections db' = ClipboardCollections db \<and>
         ClipboardCollectionItems db' = ClipboardCollectionItems db \<and>
         length (ClipboardItems db') = length (ClipboardItems db) \<and>
         (\<forall>k<length (ClipboardItems db).
            (item_id (ClipboardItems db ! k) \<noteq> ui_id input \<longrightarrow>
               ClipboardItems db' ! k = ClipboardItems db ! k) \<and>
            item_id (ClipboardItems db' ! k) = item_id (ClipboardItems db ! k) \<and>
            item_userId (ClipboardItems db' ! k) = item_userId (ClipboardItems db ! k) \<and>
            item_createdAt (ClipboardItems db' ! k) = item_createdAt (ClipboardItems db ! k) \<and>
            (ui_contentType input = None \<longrightarrow>
               item_contentType (ClipboardItems db' ! k) = item_contentType (ClipboardItems db ! k)) \<and>
            (ui_content input = None \<longrightarrow>
               item_content (ClipboardItems db' ! k) = item_content (ClipboardItems db ! k)) \<and>
            (ui_normalizedPreview input = None \<longrightarrow>
               item_normalizedPreview (ClipboardItems db' ! k) =
               item_normalizedPreview (ClipboardItems db ! k)) \<and>
            (ui_sourceApp input = None \<longrightarrow>
               item_sourceApp (ClipboardItems db' ! k) = item_sourceApp (ClipboardItems db ! k)) \<and>
            (ui_sourceDevice input = None \<longrightarrow>
               item_sourceDevice (ClipboardItems db' ! k) = item_sourceDevice (ClipboardItems db ! k)) \<and>
            (ui_isPinned input = None \<longrightarrow>
               item_isPinned (ClipboardItems db' ! k) = item_isPinned (ClipboardItems db ! k)) \<and>
            (ui_isArchived input = None \<longrightarrow>
               item_isArchived (ClipboardItems db' ! k) = item_isArchived (ClipboardItems db ! k)) \<and>
            (ui_lastCopiedAt input = None \<longrightarrow>
               item_lastCopiedAt (ClipboardItems db' ! k) = item_lastCopiedAt (ClipboardItems db ! k))) \<and>
         (\<exists>k<length (ClipboardItems db).
            item_id (ClipboardItems db ! k) = ui_id input \<and>
            resp = ItemData (Some (ClipboardItems db' ! k)))"
proof -
  note db' = updateClipboardItem_handler_Inr(1) [OF assms]
  from updateClipboardItem_handler_Inr(2) [OF assms]
  have "\<exists>k<length (ClipboardItems db).
            item_id (ClipboardItems db ! k) = ui_id input \<and>
            resp = ItemData (Some (ClipboardItems db' ! k))"
    by (auto simp: db')
  then show ?thesis
    by (simp add: db' item_set_fields)
qed

theorem updateClipboardItem_keeps_absent_fields_witness:
  "updateClipboardItem_handler unpin_only (signed_in alice) sample_env sample_db =
     (Inr (ItemData (Some (sample_item ''i2'' ''alice'' False False))),
      sample_db\<lparr>ClipboardItems :=
        [sample_item ''i1'' ''alice'' True True,
         sample_item ''i2'' ''alice'' False False,
         sample_item ''i3'' ''alice'' False False,
         sample_item ''i4'' ''bob'' False False]\<rparr>) \<and>
   ClipboardCollections
     (sample_db\<lparr>ClipboardItems :=
        [sample_item ''i1'' ''alice'' True True,
         sample_item ''i2'' ''alice'' False False,
         sample_item ''i3'' ''alice'' False False,
         sample_item ''i4'' ''bob'' False False]\<rparr>) = ClipboardCollections sample_db"
proof -
  have h: "updateClipboardItem_handler unpin_only (signed_in alice) sample_env sample_db =
     (Inr (ItemData (Some (sample_item ''i2'' ''alice'' False False))),
      sample_db\<lparr>ClipboardItems :=
        [sample_item ''i1'' ''alice'' True True,
         sample_item ''i2'' ''alice'' False False,
         sample_item ''i3'' ''alice'' False False,
         sample_item ''i4'' ''bob'' False False]\<rparr>)"
    by (simp add: handler_defs guard_defs storage_defs sample_defs item_set_def)
  from updateClipboardItem_keeps_absent_fields [OF h] h show ?thesis
    by blast
qed

text \<open>
  C2. The schema of \<open>createClipboardItem\<close> asks for \<open>content\<close> of length
  at least 1; the schema of \<open>updateClipboardItem\<close> takes any string. Alice's
  update of her item \<open>i2\<close> with the empty string as \<open>content\<close> succeeds, and
  the row is stored with the empty content.
\<close>

theorem updateClipboardItem_stores_empty_content:
  "fst (updateClipboardItem blank_content (signed_in alice) sample_env sample_db) =
     Inr (ItemData (Some ((sample_item ''i2'' ''alice'' True False)\<lparr>item_content := []\<rparr>))) \<and>
   map item_content
     (ClipboardItems (snd (updateClipboardItem blank_content (signed_in alice) sample_env sample_db))) =
     [''hello'', [], ''hello'', ''hello'']"
  by (simp add: action_defs schema_defs handler_defs guard_defs storage_defs sample_defs
      item_set_def)

section \<open>Updating a collection\<close>

lemma updateCollection_handler_Inr:
  assumes pk: "distinct (map col_id (ClipboardCollections db))"
    and ok: "updateCollection_handler input context e db = (Inr resp, db')"
  shows "\<exists>c0 \<in> set (ClipboardCollections db).
           col_id c0 = uc_id input \<and>
           resp = CollectionData (Some (collection_set input (env_now e) c0)) \<and>
           db' = db\<lparr>ClipboardCollections :=
                   map (\<lambda>r. if col_id r = uc_id input then collection_set input (env_now e) r else r)
                     (ClipboardCollections db)\<rparr>"
proof -
  from ok obtain u c where u: "requireUser context = Inr u"
    and c: "getOwnedCollection (uc_id input) (user_id u) db = Inr c"
    by (auto simp: updateCollection_handler_def split: sum.splits)
  from c have c_in: "c \<in> set (ClipboardCollections db)" and c_id: "col_id c = uc_id input"
    by (auto dest: getOwnedCollection_Inr)
  from filter_key_unique [OF pk c_in] c_id
  have "filter (\<lambda>r. col_id r = uc_id input) (ClipboardCollections db) = [c]"
    by simp
  with ok u c have "resp = CollectionData (Some (collection_set input (env_now e) c))"
    and "db' = db\<lparr>ClipboardCollections :=
                   map (\<lambda>r. if col_id r = uc_id input then collection_set input (env_now e) r else r)
                     (ClipboardCollections db)\<rparr>"
    by (auto simp: updateCollection_handler_def update_where_def first_def)
  with c_in c_id show ?thesis
    by blast
qed

lemma map_key_update:
  "(\<And>r. key (f r) = key r) \<Longrightarrow> map key (map (\<lambda>r. if p r then f r else r) rows) = map key rows"
  by (induction rows) auto

text \<open>
  C3 (as amended). Where \<open>id\<close> is the primary key of the collection table, a
  successful \<open>updateCollection\<close> returns the collection with \<open>updatedAt\<close> set
  to the clock reading of the call, whichever fields the input supplies, and with
  \<open>createdAt\<close> as it was. So of two successive successful updates of one
  collection the second \<open>updatedAt\<close> is not earlier than the first whenever the
  second clock reading is not earlier than the first, and \<open>updatedAt\<close> differs
  from \<open>createdAt\<close> after an update exactly when the clock reading of that
  update differs from \<open>createdAt\<close>.
\<close>

theorem updateCollection_sets_updatedAt_to_now:
  assumes pk: "distinct (map col_id (ClipboardCollections db))"
    and u1: "updateCollection_handler input1 context1 e1 db = (Inr resp1, db1)"
    and u2: "updateCollection_handler input2 context2 e2 db1 = (Inr resp2, db2)"
    and same: "uc_id input2 = uc_id input1"
  shows "\<exists>c0 c1 c2.
           c0 \<in> set (ClipboardCollections db) \<and> col_id c0 = uc_id input1 \<and>
           resp1 = CollectionData (Some c1) \<and> c1 \<in> set (ClipboardCollections db1) \<and>
           resp2 = CollectionData (Some c2) \<and> c2 \<in> set (ClipboardCollections db2) \<and>
           col_id c1 = col_id c0 \<and> col_id c2 = col_id c0 \<and>
           col_createdAt c1 = col_createdAt c0 \<and> col_createdAt c2 = col_createdAt c0 \<and>
           col_updatedAt c1 = env_now e1 \<and> col_updatedAt c2 = env_now e2 \<and>
           (env_now e1 \<le> env_now e2 \<longrightarrow> col_updatedAt c1 \<le> col_updatedAt c2) \<and>
           (col_updatedAt c1 \<noteq> col_createdAt c1 \<longleftrightarrow> env_now e1 \<noteq> col_createdAt c0) \<and>
           (col_updatedAt c2 \<noteq> col_createdAt c2 \<longleftrightarrow> env_now e2 \<noteq> col_createdAt c0)"
proof -
  let ?f1 = "collection_set input1 (env_now e1)"
  let ?f2 = "collection_set input2 (env_now e2)"
  from updateCollection_handler_Inr [OF pk u1] obtain c0 where
    c0: "c0 \<in> set (ClipboardCollections db)" "col_id c0 = uc_id input1"
    and r1: "resp1 = CollectionData (Some (?f1 c0))"
    and db1: "ClipboardCollections db1 =
        map (\<lambda>r. if col_id r = uc_id input1 then ?f1 r else r) (ClipboardCollections db)"
    by auto
  have pk1: "distinct (map col_id (ClipboardCollections db1))"
    using pk by (simp only: db1 map_key_update [of col_id, OF collection_set_fields(1)])
  have c1_in: "?f1 c0 \<in> set (ClipboardCollections db1)"
    using c0 by (force simp: db1)
  from updateCollection_handler_Inr [OF pk1 u2] obtain c1 where
    c1: "c1 \<in> set (ClipboardCollections db1)" "col_id c1 = uc_id input2"
    and r2: "resp2 = CollectionData (Some (?f2 c1))"
    and db2: "ClipboardCollections db2 =
        map (\<lambda>r. if col_id r = uc_id input2 then ?f2 r else r) (ClipboardCollections db1)"
    by auto
  have "c1 = ?f1 c0"
    using key_unique [OF pk1 c1(1) c1_in] c1(2) c0(2) same
    by (simp add: collection_set_fields)
  moreover have "?f2 c1 \<in> set (ClipboardCollections db2)"
    using c1 by (force simp: db2)
  ultimately show ?thesis
    using c0 r1 r2 c1_in
    by (intro exI [of _ c0] exI [of _ "?f1 c0"] exI [of _ "?f2 (?f1 c0)"])
       (simp add: collection_set_fields)
qed

theorem updateCollection_sets_updatedAt_to_now_witness:
  "distinct (map col_id (ClipboardCollections sample_db)) \<and>
   updateCollection_handler rename_c1 (signed_in alice) sample_env sample_db =
     (Inr (CollectionData (Some (renamed 200))),
      sample_db\<lparr>ClipboardCollections := [renamed 200, sample_collection ''c2'' ''bob'']\<rparr>) \<and>
   updateCollection_handler rename_c1 (signed_in alice) later_env
     (sample_db\<lparr>ClipboardCollections := [renamed 200, sample_collection ''c2'' ''bob'']\<rparr>) =
     (Inr (CollectionData (Some (renamed 300))),
      sample_db\<lparr>ClipboardCollections := [renamed 300, sample_collection ''c2'' ''bob'']\<rparr>) \<and>
   col_updatedAt (renamed 200) \<le> col_updatedAt (renamed 300) \<and>
   col_createdAt (renamed 300) = col_createdAt (sample_collection ''c1'' ''alice'')"
proof -
  have pk: "distinct (map col_id (ClipboardCollections sample_db))"
    by (simp add: sample_defs)
  have u1: "updateCollection_handler rename_c1 (signed_in alice) sample_env sample_db =
     (Inr (CollectionData (Some (renamed 200))),
      sample_db\<lparr>ClipboardCollections := [renamed 200, sample_collection ''c2'' ''bob'']\<rparr>)"
    by (simp add: handler_defs guard_defs storage_defs sample_defs collection_set_def)
  have u2: "updateCollection_handler rename_c1 (signed_in alice) later_env
     (sample_db\<lparr>ClipboardCollections := [renamed 200, sample_collection ''c2'' ''bob'']\<rparr>) =
     (Inr (CollectionData (Some (renamed 300))),
      sample_db\<lparr>ClipboardCollections := [renamed 300, sample_collection ''c2'' ''bob'']\<rparr>)"
    by (simp add: handler_defs guard_defs storage_defs sample_defs collection_set_def)
  have now: "env_now sample_env \<le> env_now later_env"
    by (simp add: sample_defs)
  from updateCollection_sets_updatedAt_to_now [OF pk u1 u2 refl] now pk u1 u2 show ?thesis
    by (auto simp: sample_defs)
qed

text \<open>
  C3, as stated, fails: Alice creates a collection and renames it while the clock
  still reads the same millisecond; the update succeeds and the collection it
  returns has \<open>updatedAt\<close> equal to \<open>createdAt\<close>.
\<close>

theorem updateCollection_updatedAt_equals_createdAt:
  "fst (updateCollection rename_input (signed_in alice) sample_env
          (snd (createCollection new_collection_input (signed_in alice) sample_env empty_db))) =
     Inr (CollectionData (Some
       \<lparr>col_id = ''fresh'', col_userId = ''alice'', col_name = ''Home'', col_description = None,
        col_icon = None, col_isDefault = False, col_createdAt = 200, col_updatedAt = 200\<rparr>))"
  by (simp add: action_defs schema_defs handler_defs guard_defs storage_defs sample_defs
      collection_set_def empty_db_def)

section \<open>Linking items and collections\<close>

lemma getOwnedCollection_links [simp]:
  "getOwnedCollection cid uid (db\<lparr>ClipboardCollectionItems := ls\<rparr>) = getOwnedCollection cid uid db"
  by (simp add: getOwnedCollection_def)

lemma getOwnedItem_links [simp]:
  "getOwnedItem iid uid (db\<lparr>ClipboardCollectionItems := ls\<rparr>) = getOwnedItem iid uid db"
  by (simp add: getOwnedItem_def)

lemma addItemToCollection_handler_Inr:
  assumes "addItemToCollection_handler input context e db = (Inr resp, db')"
  shows "\<exists>u c i. requireUser context = Inr u \<and>
           getOwnedCollection (ln_collectionId input) (user_id u) db = Inr c \<and>
           getOwnedItem (ln_itemId input) (user_id u) db = Inr i \<and>
           env_randomUUID e \<notin> link_id ` set (ClipboardCollectionItems db) \<and>
           db' = db\<lparr>ClipboardCollectionItems := ClipboardCollectionItems db @
                     [\<lparr>link_id = env_randomUUID e, link_collectionId = ln_collectionId input,
                       link_itemId = ln_itemId input, link_addedAt = env_now e\<rparr>]\<rparr>"
  using assms
  by (auto simp: addItemToCollection_handler_def insert_row_def split: sum.splits if_splits)

lemma removeItemFromCollection_handler_Inr:
  assumes "removeItemFromCollection_handler input context e db = (Inr resp, db')"
  shows "\<exists>u c i. requireUser context = Inr u \<and>
           getOwnedCollection (ln_collectionId input) (user_id u) db = Inr c \<and>
           getOwnedItem (ln_itemId input) (user_id u) db = Inr i \<and>
           resp = Success \<and>
           db' = db\<lparr>ClipboardCollectionItems :=
                     filter (\<lambda>l. \<not> (link_collectionId l = ln_collectionId input \<and>
                                     link_itemId l = ln_itemId input))
                       (ClipboardCollectionItems db)\<rparr>"
  using assms
  by (auto simp: removeItemFromCollection_handler_def delete_where_def
      split: sum.splits if_splits)

lemma listCollectionItems_handler_owned:
  assumes "requireUser context = Inr u"
    and "getOwnedCollection cid (user_id u) db = Inr c"
  shows "listCollectionItems_handler \<lparr>lci_collectionId = cid\<rparr> context e db =
           (Inr (ItemsData
                  (filter (\<lambda>i. item_id i \<in> link_itemId `
                              {l \<in> set (ClipboardCollectionItems db). link_collectionId l = cid})
                     (ClipboardItems db))
                  (length
                    (filter (\<lambda>i. item_id i \<in> link_itemId `
                              {l \<in> set (ClipboardCollectionItems db). link_collectionId l = cid})
                     (ClipboardItems db)))), db)"
proof (cases "filter (\<lambda>l. link_collectionId l = cid) (ClipboardCollectionItems db) = []")
  case True
  then have none: "{l \<in> set (ClipboardCollectionItems db). link_collectionId l = cid} = {}"
    by (auto simp: filter_empty_conv)
  show ?thesis
    using assms by (simp add: listCollectionItems_handler_def select_where_def True none)
next
  case False
  with assms show ?thesis
    by (simp add: listCollectionItems_handler_def select_where_def Let_def)
qed

text \<open>
  C5. After a successful \<open>addItemToCollection\<close> of item i to collection c, the
  caller's \<open>listCollectionItems\<close> of c succeeds and returns an item with id i, and
  the caller's \<open>removeItemFromCollection\<close> of the pair succeeds. After a successful
  \<open>removeItemFromCollection\<close> of the pair, the caller's \<open>listCollectionItems\<close>
  of c succeeds and returns no item with id i.
\<close>

theorem link_round_trip:
  "(addItemToCollection_handler input context e db = (Inr resp, db') \<longrightarrow>
      (\<exists>items. listCollectionItems_handler \<lparr>lci_collectionId = ln_collectionId input\<rparr>
                  context e' db' = (Inr (ItemsData items (length items)), db') \<and>
               ln_itemId input \<in> item_id ` set items) \<and>
      (\<exists>db''. removeItemFromCollection_handler input context e' db' = (Inr Success, db''))) \<and>
   (removeItemFromCollection_handler input context e db = (Inr resp, db') \<longrightarrow>
      (\<exists>items. listCollectionItems_handler \<lparr>lci_collectionId = ln_collectionId input\<rparr>
                  context e' db' = (Inr (ItemsData items (length items)), db') \<and>
               ln_itemId input \<notin> item_id ` set items))"
proof (intro conjI impI)
  assume "addItemToCollection_handler input context e db = (Inr resp, db')"
  from addItemToCollection_handler_Inr [OF this] obtain u c i where
    u: "requireUser context = Inr u"
    and c: "getOwnedCollection (ln_collectionId input) (user_id u) db = Inr c"
    and i: "getOwnedItem (ln_itemId input) (user_id u) db = Inr i"
    and db': "db' = db\<lparr>ClipboardCollectionItems := ClipboardCollectionItems db @
                     [\<lparr>link_id = env_randomUUID e, link_collectionId = ln_collectionId input,
                       link_itemId = ln_itemId input, link_addedAt = env_now e\<rparr>]\<rparr>"
    by blast
  from c have c': "getOwnedCollection (ln_collectionId input) (user_id u) db' = Inr c"
    by (simp add: db')
  from i have i': "getOwnedItem (ln_itemId input) (user_id u) db' = Inr i"
    by (simp add: db')
  from i have "i \<in> set (ClipboardItems db')" "item_id i = ln_itemId input"
    by (auto simp: db' dest: getOwnedItem_Inr)
  then show "\<exists>items. listCollectionItems_handler \<lparr>lci_collectionId = ln_collectionId input\<rparr>
                  context e' db' = (Inr (ItemsData items (length items)), db') \<and>
               ln_itemId input \<in> item_id ` set items"
    unfolding listCollectionItems_handler_owned [OF u c']
    by (force simp: db')
  show "\<exists>db''. removeItemFromCollection_handler input context e' db' = (Inr Success, db'')"
    using u c' i'
    by (simp add: removeItemFromCollection_handler_def delete_where_def db')
next
  assume "removeItemFromCollection_handler input context e db = (Inr resp, db')"
  from removeItemFromCollection_handler_Inr [OF this] obtain u c where
    u: "requireUser context = Inr u"
    and c: "getOwnedCollection (ln_collectionId input) (user_id u) db = Inr c"
    and db': "db' = db\<lparr>ClipboardCollectionItems :=
                     filter (\<lambda>l. \<not> (link_collectionId l = ln_collectionId input \<and>
                                     link_itemId l = ln_itemId input))
                       (ClipboardCollectionItems db)\<rparr>"
    by blast
  from c have c': "getOwnedCollection (ln_collectionId input) (user_id u) db' = Inr c"
    by (simp add: db')
  show "\<exists>items. listCollectionItems_handler \<lparr>lci_collectionId = ln_collectionId input\<rparr>
                  context e' db' = (Inr (ItemsData items (length items)), db') \<and>
               ln_itemId input \<notin> item_id ` set items"
    unfolding listCollectionItems_handler_owned [OF u c']
    by (auto simp: db')
qed

theorem link_round_trip_witness:
  "addItemToCollection_handler link_c1_i1 (signed_in alice) sample_env sample_db =
     (Inr (LinkData (Some (sample_link ''fresh'' ''c1'' ''i1'' \<lparr>link_addedAt := 200\<rparr>))),
      sample_db\<lparr>ClipboardCollectionItems :=
        ClipboardCollectionItems sample_db @ [sample_link ''fresh'' ''c1'' ''i1'' \<lparr>link_addedAt := 200\<rparr>]\<rparr>) \<and>
   ''i1'' \<in> item_id ` set (items_of (fst (listCollectionItems_handler \<lparr>lci_collectionId = ''c1''\<rparr>
      (signed_in alice) later_env
      (sample_db\<lparr>ClipboardCollectionItems :=
        ClipboardCollectionItems sample_db @ [sample_link ''fresh'' ''c1'' ''i1'' \<lparr>link_addedAt := 200\<rparr>]\<rparr>)))) \<and>
   removeItemFromCollection_handler link_c1_i2 (signed_in alice) sample_env sample_db =
     (Inr Success,
      sample_db\<lparr>ClipboardCollectionItems :=
        [sample_link ''l3'' ''c1'' ''i3'', sample_link ''l4'' ''c2'' ''i4'']\<rparr>) \<and>
   ''i2'' \<notin> item_id ` set (items_of (fst (listCollectionItems_handler \<lparr>lci_collectionId = ''c1''\<rparr>
      (signed_in alice) later_env
      (sample_db\<lparr>ClipboardCollectionItems :=
        [sample_link ''l3'' ''c1'' ''i3'', sample_link ''l4'' ''c2'' ''i4'']\<rparr>))))"
proof -
  have add: "addItemToCollection_handler link_c1_i1 (signed_in alice) sample_env sample_db =
     (Inr (LinkData (Some (sample_link ''fresh'' ''c1'' ''i1'' \<lparr>link_addedAt := 200\<rparr>))),
      sample_db\<lparr>ClipboardCollectionItems :=
        ClipboardCollectionItems sample_db @ [sample_link ''fresh'' ''c1'' ''i1'' \<lparr>link_addedAt := 200\<rparr>]\<rparr>)"
    by (simp add: handler_defs guard_defs storage_defs sample_defs)
  have remove: "removeItemFromCollection_handler link_c1_i2 (signed_in alice) sample_env sample_db =
     (Inr Success,
      sample_db\<lparr>ClipboardCollectionItems :=
        [sample_link ''l3'' ''c1'' ''i3'', sample_link ''l4'' ''c2'' ''i4'']\<rparr>)"
    by (simp add: handler_defs guard_defs storage_defs sample_defs)
  have c1: "ln_collectionId link_c1_i1 = ''c1''" "ln_itemId link_c1_i1 = ''i1''"
    "ln_collectionId link_c1_i2 = ''c1''" "ln_itemId link_c1_i2 = ''i2''"
    by (simp_all add: link_c1_i1_def link_c1_i2_def)
  from link_round_trip [of link_c1_i1 "signed_in alice" sample_env sample_db _ _ later_env] add
  have 1: "''i1'' \<in> item_id ` set (items_of (fst (listCollectionItems_handler \<lparr>lci_collectionId = ''c1''\<rparr>
      (signed_in alice) later_env
      (sample_db\<lparr>ClipboardCollectionItems :=
        ClipboardCollectionItems sample_db @ [sample_link ''fresh'' ''c1'' ''i1'' \<lparr>link_addedAt := 200\<rparr>]\<rparr>))))"
    unfolding c1 by force
  from link_round_trip [of link_c1_i2 "signed_in alice" sample_env sample_db _ _ later_env] remove
  have 2: "''i2'' \<notin> item_id ` set (items_of (fst (listCollectionItems_handler \<lparr>lci_collectionId = ''c1''\<rparr>
      (signed_in alice) later_env
      (sample_db\<lparr>ClipboardCollectionItems :=
        [sample_link ''l3'' ''c1'' ''i3'', sample_link ''l4'' ''c2'' ''i4'']\<rparr>))))"
    unfolding c1 by force
  from add remove 1 2 show ?thesis
    by blast
qed

section \<open>Stored states that the actions produce\<close>

text \<open>
  The empty state is well formed and every action keeps a well-formed state well
  formed, so every state reached through \<open>server\<close> is.
\<close>

lemma well_formed_link:
  "well_formed db \<Longrightarrow> l \<in> set (ClipboardCollectionItems db) \<Longrightarrow>
   \<exists>c \<in> set (ClipboardCollections db). \<exists>i \<in> set (ClipboardItems db).
     col_id c = link_collectionId l \<and> item_id i = link_itemId l \<and> col_userId c = item_userId i"
  by (simp add: well_formed_def)

lemma well_formedI:
  assumes "distinct (map item_id (ClipboardItems db))"
    and "distinct (map col_id (ClipboardCollections db))"
    and "distinct (map link_id (ClipboardCollectionItems db))"
    and "\<And>l. l \<in> set (ClipboardCollectionItems db) \<Longrightarrow>
           \<exists>c \<in> set (ClipboardCollections db). \<exists>i \<in> set (ClipboardItems db).
             col_id c = link_collectionId l \<and> item_id i = link_itemId l \<and>
             col_userId c = item_userId i"
  shows "well_formed db"
  using assms by (simp add: well_formed_def)

lemma well_formed_empty: "well_formed empty_db"
  by (simp add: well_formed_def empty_db_def)

lemma createClipboardItem_handler_Inr:
  assumes "createClipboardItem_handler input context e db = (Inr resp, db')"
  shows "\<exists>u row. requireUser context = Inr u \<and> item_id row = env_randomUUID e \<and>
           item_userId row = user_id u \<and> item_content row = ci_content input \<and>
           item_createdAt row = env_now e \<and>
           item_id row \<notin> item_id ` set (ClipboardItems db) \<and>
           resp = ItemData (Some row) \<and>
           db' = db\<lparr>ClipboardItems := ClipboardItems db @ [row]\<rparr>"
proof -
  from assms obtain u where u: "requireUser context = Inr u"
    by (auto simp: createClipboardItem_handler_def split: sum.splits)
  define row where "row =
    \<lparr>item_id = env_randomUUID e, item_userId = user_id u,
     item_contentType = ci_contentType input, item_content = ci_content input,
     item_normalizedPreview = ci_normalizedPreview input, item_sourceApp = ci_sourceApp input,
     item_sourceDevice = ci_sourceDevice input,
     item_isPinned = (case ci_isPinned input of None \<Rightarrow> False | Some b \<Rightarrow> b),
     item_isArchived = (case ci_isArchived input of None \<Rightarrow> False | Some b \<Rightarrow> b),
     item_createdAt = env_now e, item_lastCopiedAt = ci_lastCopiedAt input\<rparr>"
  from assms u have "item_id row \<notin> item_id ` set (ClipboardItems db)"
    and "resp = ItemData (Some row)"
    and "db' = db\<lparr>ClipboardItems := ClipboardItems db @ [row]\<rparr>"
    by (auto simp: createClipboardItem_handler_def insert_row_def Let_def first_def row_def
        split: if_splits)
  with u show ?thesis
    by (intro exI [of _ u] exI [of _ row]) (simp add: row_def)
qed

lemma createCollection_handler_Inr:
  assumes "createCollection_handler input context e db = (Inr resp, db')"
  shows "\<exists>u row. requireUser context = Inr u \<and> col_id row = env_randomUUID e \<and>
           col_userId row = user_id u \<and> col_name row = cc_name input \<and>
           col_createdAt row = env_now e \<and> col_updatedAt row = env_now e \<and>
           col_id row \<notin> col_id ` set (ClipboardCollections db) \<and>
           resp = CollectionData (Some row) \<and>
           db' = db\<lparr>ClipboardCollections := ClipboardCollections db @ [row]\<rparr>"
proof -
  from assms obtain u where u: "requireUser context = Inr u"
    by (auto simp: createCollection_handler_def split: sum.splits)
  define row where "row =
    \<lparr>col_id = env_randomUUID e, col_userId = user_id u, col_name = cc_name input,
     col_description = cc_description input, col_icon = cc_icon input,
     col_isDefault = (case cc_isDefault input of None \<Rightarrow> False | Some b \<Rightarrow> b),
     col_createdAt = env_now e, col_updatedAt = env_now e\<rparr>"
  from assms u have "col_id row \<notin> col_id ` set (ClipboardCollections db)"
    and "resp = CollectionData (Some row)"
    and "db' = db\<lparr>ClipboardCollections := ClipboardCollections db @ [row]\<rparr>"
    by (auto simp: createCollection_handler_def insert_row_def Let_def first_def row_def
        split: if_splits)
  with u show ?thesis
    by (intro exI [of _ u] exI [of _ row]) (simp add: row_def)
qed

lemma well_formed_step:
  assumes wf: "well_formed db"
    and pk: "distinct (map item_id (ClipboardItems db'))"
      "distinct (map col_id (ClipboardCollections db'))"
      "distinct (map link_id (ClipboardCollectionItems db'))"
    and items: "\<And>i. i \<in> set (ClipboardItems db) \<Longrightarrow>
        \<exists>i' \<in> set (ClipboardItems db'). item_id i' = item_id i \<and> item_userId i' = item_userId i"
    and cols: "\<And>c. c \<in> set (ClipboardCollections db) \<Longrightarrow>
        \<exists>c' \<in> set (ClipboardCollections db'). col_id c' = col_id c \<and> col_userId c' = col_userId c"
    and links: "\<And>l. l \<in> set (ClipboardCollectionItems db') \<Longrightarrow>
        l \<in> set (ClipboardCollectionItems db) \<or>
        (\<exists>c \<in> set (ClipboardCollections db). \<exists>i \<in> set (ClipboardItems db).
           col_id c = link_collectionId l \<and> item_id i = link_itemId l \<and>
           col_userId c = item_userId i)"
  shows "well_formed db'"
proof (rule well_formedI)
  fix l assume "l \<in> set (ClipboardCollectionItems db')"
  with links well_formed_link [OF wf] obtain c i where
    c: "c \<in> set (ClipboardCollections db)" and i: "i \<in> set (ClipboardItems db)"
    and eq: "col_id c = link_collectionId l" "item_id i = link_itemId l"
      "col_userId c = item_userId i"
    by blast
  from cols [OF c] obtain c' where "c' \<in> set (ClipboardCollections db')"
    "col_id c' = col_id c" "col_userId c' = col_userId c"
    by blast
  moreover from items [OF i] obtain i' where "i' \<in> set (ClipboardItems db')"
    "item_id i' = item_id i" "item_userId i' = item_userId i"
    by blast
  ultimately show "\<exists>c \<in> set (ClipboardCollections db'). \<exists>i \<in> set (ClipboardItems db').
             col_id c = link_collectionId l \<and> item_id i = link_itemId l \<and>
             col_userId c = item_userId i"
    using eq by (intro bexI [of _ c'] bexI [of _ i']) simp_all
qed (rule pk)+

lemma well_formed_parts:
  assumes "well_formed db"
  shows "distinct (map item_id (ClipboardItems db))"
    and "distinct (map col_id (ClipboardCollections db))"
    and "distinct (map link_id (ClipboardCollectionItems db))"
  using assms by (simp_all add: well_formed_def)

lemma createClipboardItem_well_formed:
  assumes wf: "well_formed db"
  shows "well_formed (snd (createClipboardItem_handler input context e db))"
proof (cases "createClipboardItem_handler input context e db")
  case (Pair r db')
  show ?thesis
  proof (cases r)
    case (Inl err)
    with Pair handler_failure_unchanged [of "CreateClipboardItem input" "context" e db err] wf
    show ?thesis by simp
  next
    case (Inr resp)
    with Pair createClipboardItem_handler_Inr [of input "context" e db resp db']
    obtain row where fresh: "item_id row \<notin> item_id ` set (ClipboardItems db)"
      and db': "db' = db\<lparr>ClipboardItems := ClipboardItems db @ [row]\<rparr>"
      by auto
    show ?thesis
      unfolding Pair snd_conv
      by (rule well_formed_step [OF wf])
         (use fresh well_formed_parts [OF wf] in \<open>auto simp: db'\<close>)
  qed
qed

lemma createCollection_well_formed:
  assumes wf: "well_formed db"
  shows "well_formed (snd (createCollection_handler input context e db))"
proof (cases "createCollection_handler input context e db")
  case (Pair r db')
  show ?thesis
  proof (cases r)
    case (Inl err)
    with Pair handler_failure_unchanged [of "CreateCollection input" "context" e db err] wf
    show ?thesis by simp
  next
    case (Inr resp)
    with Pair createCollection_handler_Inr [of input "context" e db resp db']
    obtain row where fresh: "col_id row \<notin> col_id ` set (ClipboardCollections db)"
      and db': "db' = db\<lparr>ClipboardCollections := ClipboardCollections db @ [row]\<rparr>"
      by auto
    show ?thesis
      unfolding Pair snd_conv
      by (rule well_formed_step [OF wf])
         (use fresh well_formed_parts [OF wf] in \<open>auto simp: db'\<close>)
  qed
qed

lemma updateClipboardItem_well_formed:
  assumes wf: "well_formed db"
  shows "well_formed (snd (updateClipboardItem_handler input context e db))"
proof (cases "updateClipboardItem_handler input context e db")
  case (Pair r db')
  show ?thesis
  proof (cases r)
    case (Inl err)
    with Pair handler_failure_unchanged [of "UpdateClipboardItem input" "context" e db err] wf
    show ?thesis by simp
  next
    case (Inr resp)
    let ?f = "\<lambda>r. if item_id r = ui_id input then item_set input r else r"
    from Inr Pair have db': "db' = db\<lparr>ClipboardItems := map ?f (ClipboardItems db)\<rparr>"
      using updateClipboardItem_handler_Inr(1) by simp
    have keys: "map item_id (map ?f (ClipboardItems db)) = map item_id (ClipboardItems db)"
      by (rule map_key_update) (simp add: item_set_fields)
    have pk: "distinct (map item_id (map ?f (ClipboardItems db)))"
      unfolding keys by (rule well_formed_parts [OF wf])
    have same: "item_id (?f i) = item_id i \<and> item_userId (?f i) = item_userId i" for i
      by (simp add: item_set_fields)
    show ?thesis
      unfolding Pair snd_conv
    proof (rule well_formed_step [OF wf])
      show "distinct (map item_id (ClipboardItems db'))"
        using pk by (simp add: db')
      show "\<exists>i' \<in> set (ClipboardItems db'). item_id i' = item_id i \<and> item_userId i' = item_userId i"
        if "i \<in> set (ClipboardItems db)" for i
        using that same [of i] by (intro bexI [of _ "?f i"]) (simp_all add: db')
    qed (use well_formed_parts [OF wf] in \<open>auto simp: db'\<close>)
  qed
qed

lemma updateCollection_well_formed:
  assumes wf: "well_formed db"
  shows "well_formed (snd (updateCollection_handler input context e db))"
proof (cases "updateCollection_handler input context e db")
  case (Pair r db')
  show ?thesis
  proof (cases r)
    case (Inl err)
    with Pair handler_failure_unchanged [of "UpdateCollection input" "context" e db err] wf
    show ?thesis by simp
  next
    case (Inr resp)
    let ?f = "\<lambda>r. if col_id r = uc_id input then collection_set input (env_now e) r else r"
    from Inr Pair
      updateCollection_handler_Inr [OF well_formed_parts(2) [OF wf], of input "context" e resp db']
    have db': "db' = db\<lparr>ClipboardCollections := map ?f (ClipboardCollections db)\<rparr>"
      by auto
    have keys: "map col_id (map ?f (ClipboardCollections db)) = map col_id (ClipboardCollections db)"
      by (rule map_key_update) (simp add: collection_set_fields)
    have pk: "distinct (map col_id (map ?f (ClipboardCollections db)))"
      unfolding keys by (rule well_formed_parts [OF wf])
    have same: "col_id (?f c) = col_id c \<and> col_userId (?f c) = col_userId c" for c
      by (simp add: collection_set_fields)
    show ?thesis
      unfolding Pair snd_conv
    proof (rule well_formed_step [OF wf])
      show "distinct (map col_id (ClipboardCollections db'))"
        using pk by (simp add: db')
      show "\<exists>c' \<in> set (ClipboardCollections db'). col_id c' = col_id c \<and> col_userId c' = col_userId c"
        if "c \<in> set (ClipboardCollections db)" for c
        using that same [of c] by (intro bexI [of _ "?f c"]) (simp_all add: db')
    qed (use well_formed_parts [OF wf] in \<open>auto simp: db'\<close>)
  qed
qed

lemma addItemToCollection_well_formed:
  assumes wf: "well_formed db"
  shows "well_formed (snd (addItemToCollection_handler input context e db))"
proof (cases "addItemToCollection_handler input context e db")
  case (Pair r db')
  show ?thesis
  proof (cases r)
    case (Inl err)
    with Pair handler_failure_unchanged [of "AddItemToCollection input" "context" e db err] wf
    show ?thesis by simp
  next
    case (Inr resp)
    let ?new = "\<lparr>link_id = env_randomUUID e, link_collectionId = ln_collectionId input,
                       link_itemId = ln_itemId input, link_addedAt = env_now e\<rparr>"
    from Inr Pair have ok: "addItemToCollection_handler input context e db = (Inr resp, db')"
      by simp
    from addItemToCollection_handler_Inr [OF ok]
    obtain u :: user and c i
      where c: "getOwnedCollection (ln_collectionId input) (user_id u) db = Inr c"
      and i: "getOwnedItem (ln_itemId input) (user_id u) db = Inr i"
      and fresh: "env_randomUUID e \<notin> link_id ` set (ClipboardCollectionItems db)"
      and db': "db' = db\<lparr>ClipboardCollectionItems := ClipboardCollectionItems db @ [?new]\<rparr>"
      by blast
    have new: "\<exists>c \<in> set (ClipboardCollections db). \<exists>i \<in> set (ClipboardItems db).
           col_id c = link_collectionId ?new \<and> item_id i = link_itemId ?new \<and>
           col_userId c = item_userId i"
      using getOwnedCollection_Inr [OF c] getOwnedItem_Inr [OF i]
      by (intro bexI [of _ c] bexI [of _ i]) simp_all
    show ?thesis
      unfolding Pair snd_conv
    proof (rule well_formed_step [OF wf])
      show "l \<in> set (ClipboardCollectionItems db) \<or>
        (\<exists>c \<in> set (ClipboardCollections db). \<exists>i \<in> set (ClipboardItems db).
           col_id c = link_collectionId l \<and> item_id i = link_itemId l \<and>
           col_userId c = item_userId i)"
        if "l \<in> set (ClipboardCollectionItems db')" for l
      proof (cases "l = ?new")
        case True
        with new show ?thesis by simp
      next
        case False
        with that show ?thesis by (simp add: db')
      qed
    qed (use fresh well_formed_parts [OF wf] in \<open>auto simp: db'\<close>)
  qed
qed

lemma removeItemFromCollection_well_formed:
  assumes wf: "well_formed db"
  shows "well_formed (snd (removeItemFromCollection_handler input context e db))"
proof (cases "removeItemFromCollection_handler input context e db")
  case (Pair r db')
  show ?thesis
  proof (cases r)
    case (Inl err)
    with Pair handler_failure_unchanged [of "RemoveItemFromCollection input" "context" e db err] wf
    show ?thesis by simp
  next
    case (Inr resp)
    with Pair removeItemFromCollection_handler_Inr [of input "context" e db resp db']
    obtain p where db': "db' = db\<lparr>ClipboardCollectionItems := filter p (ClipboardCollectionItems db)\<rparr>"
      by auto
    show ?thesis
      unfolding Pair snd_conv
      by (rule well_formed_step [OF wf])
         (use well_formed_parts [OF wf] in \<open>auto simp: db' distinct_map_filter\<close>)
  qed
qed

lemma list_handlers_unchanged:
  "snd (listClipboardItems_handler input1 context e db) = db"
  "snd (listCollections_handler input2 context e db) = db"
  "snd (listCollectionItems_handler input3 context e db) = db"
  by (auto simp: listClipboardItems_handler_def listCollections_handler_def
      listCollectionItems_handler_def Let_def split: sum.splits)

lemma handler_well_formed:
  "well_formed db \<Longrightarrow> well_formed (snd (handler call context e db))"
  by (cases call)
     (simp_all add: createClipboardItem_well_formed updateClipboardItem_well_formed
        createCollection_well_formed updateCollection_well_formed
        addItemToCollection_well_formed removeItemFromCollection_well_formed
        list_handlers_unchanged)

lemma server_well_formed:
  "well_formed db \<Longrightarrow> well_formed (snd (server req context e db))"
  by (auto simp: server_eq defineAction_def handler_well_formed split: sum.splits)

section \<open>Listing the items of a collection\<close>

lemma length_filter_keys:
  assumes "distinct (map key rows)" and "ids \<subseteq> key ` set rows"
  shows "length (filter (\<lambda>r. key r \<in> ids) rows) = card ids"
proof -
  have d: "distinct (map key (filter (\<lambda>r. key r \<in> ids) rows))"
    using assms(1) by (rule distinct_map_filter)
  have "set (map key (filter (\<lambda>r. key r \<in> ids) rows)) = ids"
    using assms(2) by auto
  with distinct_card [OF d] show ?thesis
    by simp
qed

text \<open>
  C10. In a well-formed state, \<open>listCollectionItems\<close> of a collection the caller
  owns returns items of pairwise different ids, however many link rows name one
  item; \<open>total\<close> is the number of items returned, which is the number of
  different item ids linked to the collection. It never exceeds the number of link
  rows of the collection and is strictly below it as soon as some item is linked
  more than once.
\<close>

theorem listCollectionItems_counts_distinct_items:
  assumes wf: "well_formed db"
    and u: "caller context = Some u"
    and own: "\<exists>c\<in>set (ClipboardCollections db). col_id c = cid \<and> col_userId c = user_id u"
  shows "\<exists>items total.
           listCollectionItems_handler \<lparr>lci_collectionId = cid\<rparr> context e db =
             (Inr (ItemsData items total), db) \<and>
           distinct (map item_id items) \<and>
           total = length items \<and>
           total = card (link_itemId `
                     {l \<in> set (ClipboardCollectionItems db). link_collectionId l = cid}) \<and>
           total \<le> length (filter (\<lambda>l. link_collectionId l = cid) (ClipboardCollectionItems db)) \<and>
           (\<not> distinct (map link_itemId
                  (filter (\<lambda>l. link_collectionId l = cid) (ClipboardCollectionItems db))) \<longrightarrow>
              total < length (filter (\<lambda>l. link_collectionId l = cid) (ClipboardCollectionItems db)))"
proof -
  let ?links = "filter (\<lambda>l. link_collectionId l = cid) (ClipboardCollectionItems db)"
  let ?ids = "link_itemId ` {l \<in> set (ClipboardCollectionItems db). link_collectionId l = cid}"
  let ?items = "filter (\<lambda>i. item_id i \<in> ?ids) (ClipboardItems db)"
  from u have ru: "requireUser context = Inr u"
    by (simp add: requireUser_def)
  from own obtain c where c: "getOwnedCollection cid (user_id u) db = Inr c"
    using owned_collection_found by blast
  have res: "listCollectionItems_handler \<lparr>lci_collectionId = cid\<rparr> context e db =
      (Inr (ItemsData ?items (length ?items)), db)"
    by (rule listCollectionItems_handler_owned [OF ru c])
  have pk: "distinct (map item_id (ClipboardItems db))"
    using wf by (simp add: well_formed_def)
  have sub: "?ids \<subseteq> item_id ` set (ClipboardItems db)"
  proof
    fix x assume "x \<in> ?ids"
    then obtain l where "l \<in> set (ClipboardCollectionItems db)" "x = link_itemId l"
      by auto
    with well_formed_link [OF wf this(1)] show "x \<in> item_id ` set (ClipboardItems db)"
      by force
  qed
  have len: "length ?items = card ?ids"
    by (rule length_filter_keys [OF pk sub])
  have ids: "?ids = set (map link_itemId ?links)"
    by auto
  have le: "card ?ids \<le> length ?links"
    unfolding ids by (metis card_length length_map)
  have lt: "card ?ids < length ?links" if "\<not> distinct (map link_itemId ?links)"
  proof -
    have "card ?ids \<noteq> length (map link_itemId ?links)"
      unfolding ids using that card_distinct by blast
    with le show ?thesis by simp
  qed
  have d: "distinct (map item_id ?items)"
    using pk by (rule distinct_map_filter)
  show ?thesis
    using res d len le lt by (intro exI [of _ ?items] exI [of _ "length ?items"]) simp
qed

theorem listCollectionItems_counts_distinct_items_witness:
  "well_formed sample_db \<and>
   caller (signed_in alice) = Some alice \<and>
   (\<exists>c\<in>set (ClipboardCollections sample_db). col_id c = ''c1'' \<and> col_userId c = user_id alice) \<and>
   \<not> distinct (map link_itemId
         (filter (\<lambda>l. link_collectionId l = ''c1'') (ClipboardCollectionItems sample_db))) \<and>
   listCollectionItems_handler \<lparr>lci_collectionId = ''c1''\<rparr> (signed_in alice) sample_env sample_db =
     (Inr (ItemsData [sample_item ''i2'' ''alice'' True False, sample_item ''i3'' ''alice'' False False] 2),
      sample_db) \<and>
   (2::nat) < length (filter (\<lambda>l. link_collectionId l = ''c1'') (ClipboardCollectionItems sample_db))"
proof -
  have wf: "well_formed sample_db"
    by (simp add: well_formed_def sample_defs)
  have u: "caller (signed_in alice) = Some alice"
    by (simp add: caller_def signed_in_def)
  have own: "\<exists>c\<in>set (ClipboardCollections sample_db). col_id c = ''c1'' \<and> col_userId c = user_id alice"
    by (simp add: sample_defs)
  have dup: "\<not> distinct (map link_itemId
         (filter (\<lambda>l. link_collectionId l = ''c1'') (ClipboardCollectionItems sample_db)))"
    by (simp add: sample_defs)
  have run: "listCollectionItems_handler \<lparr>lci_collectionId = ''c1''\<rparr> (signed_in alice) sample_env
      sample_db =
     (Inr (ItemsData [sample_item ''i2'' ''alice'' True False, sample_item ''i3'' ''alice'' False False] 2),
      sample_db)"
    by (simp add: handler_defs guard_defs storage_defs sample_defs)
  from listCollectionItems_counts_distinct_items [OF wf u own, of sample_env] dup run
  have "(2::nat) < length (filter (\<lambda>l. link_collectionId l = ''c1'')
      (ClipboardCollectionItems sample_db))"
    by auto
  with wf u own dup run show ?thesis
    by blast
qed

section \<open>Ownership isolation\<close>





lemma getOwnedItem_error: "getOwnedItem iid uid db = Inl err \<Longrightarrow> err = NOT_FOUND"
  by (simp add: getOwnedItem_Inl)
















end
